theory Spec2Isabelle
  imports Complex_Main
begin

section \<open>Data model\<close>

text \<open>
  Timestamps of the document store (\<^verbatim>\<open>datetime\<close> values) are counted in microseconds
  since the epoch, the resolution of Python's \<^verbatim>\<open>datetime\<close> and \<^verbatim>\<open>timedelta\<close>.
\<close>

type_synonym timestamp = int

text \<open>
  A Firestore document is a dict from field names to values. The service reads every
  field at one type only, so the model keeps one map per value type: a field that is
  present holds a value of the type the service itself writes there. A missing key of a
  map is a field the document does not have.
\<close>

record document =
  int_fields :: "string \<rightharpoonup> int"
  time_fields :: "string \<rightharpoonup> timestamp"
  str_fields :: "string \<rightharpoonup> string"
  list_fields :: "string \<rightharpoonup> string list"
  bool_fields :: "string \<rightharpoonup> bool"

text \<open>One record of the \<^verbatim>\<open>ai_interactions\<close> collection (\<^verbatim>\<open>log_ai_interaction\<close>).\<close>

record ai_interaction =
  i_userId :: string
  i_agentId :: string
  i_type :: string
  i_tokensUsed :: int
  i_creditsUsed :: int
  i_timestamp :: timestamp

text \<open>One record of the \<^verbatim>\<open>credit_transactions\<close> collection (\<^verbatim>\<open>_log_credit_transaction\<close>).\<close>

record credit_transaction =
  t_userId :: string
  t_creditType :: string
  t_amount :: int
  t_type :: string
  t_reason :: string
  t_timestamp :: timestamp

text \<open>
  The database: the collections \<^verbatim>\<open>users\<close> and \<^verbatim>\<open>ai_agents\<close> keyed by document id, and
  the two collections that are only ever appended to (\<^verbatim>\<open>.add(...)\<close>), in insertion order.
\<close>

record firestore_db =
  users :: "string \<rightharpoonup> document"
  ai_agents :: "string \<rightharpoonup> document"
  ai_interactions :: "ai_interaction list"
  credit_transactions :: "credit_transaction list"

text \<open>The fields of \<^verbatim>\<open>config/settings.py\<close> that the metering code reads.\<close>

record settings =
  rate_limit_per_minute :: int
  chat_credit_cost :: int
  image_generation_cost :: int
  music_generation_cost :: int
  free_chat_credits_monthly :: int
  free_gen_ai_credits_monthly :: int

definition default_settings :: settings where
  "default_settings =
     \<lparr>rate_limit_per_minute = 5, chat_credit_cost = 1, image_generation_cost = 1,
      music_generation_cost = 2, free_chat_credits_monthly = 25,
      free_gen_ai_credits_monthly = 25\<rparr>"

text \<open>\<^verbatim>\<open>models/schemas.py\<close>: \<^verbatim>\<open>UserCredits\<close>.\<close>

record UserCredits =
  user_id :: string
  chat_credits :: int
  gen_ai_credits :: int
  last_reset :: timestamp
  subscription_tier :: string

section \<open>Strings\<close>

text \<open>
  \<^verbatim>\<open>str.capitalize()\<close> on ASCII text: the first character in upper case, the others in
  lower case. Credit types are the ASCII words \<^verbatim>\<open>chat\<close> and \<^verbatim>\<open>genai\<close>.
\<close>

definition ascii_upper :: "char \<Rightarrow> char" where
  "ascii_upper c =
     (let n = (of_char c :: nat) in if 97 \<le> n \<and> n \<le> 122 then char_of (n - 32) else c)"

definition ascii_lower :: "char \<Rightarrow> char" where
  "ascii_lower c =
     (let n = (of_char c :: nat) in if 65 \<le> n \<and> n \<le> 90 then char_of (n + 32) else c)"

fun capitalize :: "string \<Rightarrow> string" where
  "capitalize [] = []"
| "capitalize (c # cs) = ascii_upper c # map ascii_lower cs"

section \<open>Balance store (\<^verbatim>\<open>services/firestore_service.py\<close>)\<close>

text \<open>
  \<^verbatim>\<open>get_user_credits\<close>: \<^verbatim>\<open>None\<close> for a missing document. The \<^verbatim>\<open>UserCredits\<close> model
  declares both balances \<^verbatim>\<open>Field(ge=0)\<close>; a negative stored balance fails that validation,
  and the \<^verbatim>\<open>except\<close> clause turns the error into \<^verbatim>\<open>None\<close> as well.
\<close>

definition get_user_credits ::
  "settings \<Rightarrow> firestore_db \<Rightarrow> string \<Rightarrow> timestamp \<Rightarrow> UserCredits option" where
  "get_user_credits cfg db uid now =
     (case users db uid of
        None \<Rightarrow> None
      | Some data \<Rightarrow>
          (let chat = (case int_fields data ''chatCredits'' of
                         None \<Rightarrow> free_chat_credits_monthly cfg | Some v \<Rightarrow> v);
               gen = (case int_fields data ''genAICredits'' of
                        None \<Rightarrow> free_gen_ai_credits_monthly cfg | Some v \<Rightarrow> v);
               reset = (case time_fields data ''lastCreditReset'' of
                          None \<Rightarrow> now | Some t \<Rightarrow> t);
               tier = (case str_fields data ''subscriptionTier'' of
                         None \<Rightarrow> ''free'' | Some t \<Rightarrow> t)
           in if 0 \<le> chat \<and> 0 \<le> gen
              then Some \<lparr>user_id = uid, chat_credits = chat, gen_ai_credits = gen,
                         last_reset = reset, subscription_tier = tier\<rparr>
              else None))"

text \<open>
  \<^verbatim>\<open>deduct_credits\<close>: the body of the transaction \<^verbatim>\<open>update_credits\<close>, run as one step.
  The result is the pair \<^verbatim>\<open>(success, remaining_credits)\<close> with the database after the
  call; \<^verbatim>\<open>now\<close> is the value the server stores for \<^verbatim>\<open>SERVER_TIMESTAMP\<close>.
\<close>

definition credit_field :: "string \<Rightarrow> string" where
  "credit_field credit_type = (if credit_type = ''chat'' then ''chatCredits'' else ''genAICredits'')"

definition deduct_credits ::
  "firestore_db \<Rightarrow> string \<Rightarrow> string \<Rightarrow> int \<Rightarrow> timestamp \<Rightarrow> (bool \<times> int) \<times> firestore_db" where
  "deduct_credits db uid credit_type amount now =
     (case users db uid of
        None \<Rightarrow> ((False, 0), db)
      | Some data \<Rightarrow>
          (let field_name = credit_field credit_type;
               current_credits = (case int_fields data field_name of None \<Rightarrow> 0 | Some v \<Rightarrow> v)
           in if current_credits < amount then ((False, current_credits), db)
              else
                (let new_credits = current_credits - amount;
                     data' = data
                       \<lparr>int_fields := (int_fields data)(field_name \<mapsto> new_credits),
                        time_fields := (time_fields data)
                          (''last'' @ capitalize credit_type @ ''CreditUsed'' \<mapsto> now)\<rparr>
                 in ((True, new_credits), db\<lparr>users := (users db)(uid \<mapsto> data')\<rparr>))))"

text \<open>The balance a user document stores for a credit type, if it stores one.\<close>

definition stored_balance :: "firestore_db \<Rightarrow> string \<Rightarrow> string \<Rightarrow> int option" where
  "stored_balance db uid credit_type =
     (case users db uid of
        None \<Rightarrow> None
      | Some data \<Rightarrow> int_fields data (credit_field credit_type))"

text \<open>
  \<^verbatim>\<open>_log_credit_transaction\<close> (\<^verbatim>\<open>utils/credits.py\<close>): one record added to
  \<^verbatim>\<open>credit_transactions\<close>.
\<close>

definition log_credit_transaction ::
  "firestore_db \<Rightarrow> string \<Rightarrow> string \<Rightarrow> int \<Rightarrow> string \<Rightarrow> string \<Rightarrow> timestamp \<Rightarrow> firestore_db" where
  "log_credit_transaction db uid credit_type amount transaction_type reason now =
     db\<lparr>credit_transactions := credit_transactions db @
          [\<lparr>t_userId = uid, t_creditType = credit_type, t_amount = amount,
            t_type = transaction_type, t_reason = reason, t_timestamp = now\<rparr>]\<rparr>"

text \<open>
  \<^verbatim>\<open>CreditManager.add_credits\<close>: read the document, write \<^verbatim>\<open>current + amount\<close>, log the
  transaction. The amount is not inspected.
\<close>

definition add_credits ::
  "firestore_db \<Rightarrow> string \<Rightarrow> string \<Rightarrow> int \<Rightarrow> string \<Rightarrow> timestamp \<Rightarrow> bool \<times> firestore_db" where
  "add_credits db uid credit_type amount reason now =
     (let field_name = credit_field credit_type
      in case users db uid of
           None \<Rightarrow> (False, db)
         | Some data \<Rightarrow>
             (let current_credits = (case int_fields data field_name of None \<Rightarrow> 0 | Some v \<Rightarrow> v);
                  new_credits = current_credits + amount;
                  data' = data
                    \<lparr>int_fields := (int_fields data)(field_name \<mapsto> new_credits),
                     time_fields := (time_fields data)
                       (''last'' @ capitalize credit_type @ ''CreditAdded'' \<mapsto> now)\<rparr>;
                  db' = db\<lparr>users := (users db)(uid \<mapsto> data')\<rparr>
              in (True, log_credit_transaction db' uid credit_type amount ''add'' reason now)))"

text \<open>
  \<^verbatim>\<open>CreditManager.reset_monthly_credits\<close>. \<^verbatim>\<open>(now - last_reset).days\<close> is the number of
  whole days of the difference, rounded down. \<^verbatim>\<open>doc_ref.update\<close> on a missing document
  raises, which the \<^verbatim>\<open>except\<close> clause turns into \<^verbatim>\<open>False\<close>.
\<close>

definition timedelta_days :: "timestamp \<Rightarrow> int" where
  "timedelta_days d = d div 86400000000"

definition reset_monthly_credits ::
  "settings \<Rightarrow> firestore_db \<Rightarrow> string \<Rightarrow> timestamp \<Rightarrow> bool \<times> firestore_db" where
  "reset_monthly_credits cfg db uid now =
     (case get_user_credits cfg db uid now of
        None \<Rightarrow> (False, db)
      | Some user_credits \<Rightarrow>
          if 30 \<le> timedelta_days (now - last_reset user_credits) then
            (let new_chat_credits =
                   (if subscription_tier user_credits = ''premium'' then 100
                    else if subscription_tier user_credits = ''pro'' then 500
                    else free_chat_credits_monthly cfg);
                 new_gen_credits =
                   (if subscription_tier user_credits = ''premium'' then 50
                    else if subscription_tier user_credits = ''pro'' then 200
                    else free_gen_ai_credits_monthly cfg)
             in case users db uid of
                  None \<Rightarrow> (False, db)
                | Some data \<Rightarrow>
                    (True, db\<lparr>users := (users db)(uid \<mapsto> data
                       \<lparr>int_fields := (int_fields data)
                          (''chatCredits'' \<mapsto> new_chat_credits, ''genAICredits'' \<mapsto> new_gen_credits),
                        time_fields := (time_fields data)(''lastCreditReset'' \<mapsto> now)\<rparr>)\<rparr>))
          else (False, db))"

section \<open>Access policy (\<^verbatim>\<open>services/firestore_service.py\<close>)\<close>

text \<open>\<^verbatim>\<open>models/schemas.py\<close>: \<^verbatim>\<open>AgentPersonality\<close>.\<close>

record AgentPersonality =
  agent_id :: string
  name :: string
  personality_rules :: "string list"
  gen_rules :: "string list"
  is_public :: bool
  owner_id :: string
  created_at :: timestamp
  updated_at :: timestamp

definition get_agent_personality ::
  "firestore_db \<Rightarrow> string \<Rightarrow> timestamp \<Rightarrow> AgentPersonality option" where
  "get_agent_personality db aid now =
     (case ai_agents db aid of
        None \<Rightarrow> None
      | Some data \<Rightarrow>
          Some \<lparr>agent_id = aid,
                name = (case str_fields data ''name'' of None \<Rightarrow> ''Unknown Agent'' | Some v \<Rightarrow> v),
                personality_rules =
                  (case list_fields data ''personalityRules'' of None \<Rightarrow> [] | Some v \<Rightarrow> v),
                gen_rules = (case list_fields data ''genRules'' of None \<Rightarrow> [] | Some v \<Rightarrow> v),
                is_public = (case bool_fields data ''isPublic'' of None \<Rightarrow> False | Some v \<Rightarrow> v),
                owner_id = (case str_fields data ''ownerId'' of None \<Rightarrow> [] | Some v \<Rightarrow> v),
                created_at = (case time_fields data ''createdAt'' of None \<Rightarrow> now | Some v \<Rightarrow> v),
                updated_at = (case time_fields data ''updatedAt'' of None \<Rightarrow> now | Some v \<Rightarrow> v)\<rparr>)"

definition check_user_agent_access ::
  "firestore_db \<Rightarrow> string \<Rightarrow> string \<Rightarrow> timestamp \<Rightarrow> bool" where
  "check_user_agent_access db uid aid now =
     (case get_agent_personality db aid now of
        None \<Rightarrow> False
      | Some agent \<Rightarrow>
          if is_public agent then True
          else if owner_id agent = uid then True
          else (case users db uid of
                  Some user_data \<Rightarrow>
                    (let agent_team = (case list_fields user_data ''aiAgentTeam'' of
                                         None \<Rightarrow> [] | Some v \<Rightarrow> v)
                     in aid \<in> set agent_team)
                | None \<Rightarrow> False))"

text \<open>\<^verbatim>\<open>log_ai_interaction\<close>: one record added to \<^verbatim>\<open>ai_interactions\<close> (its free-form
  \<^verbatim>\<open>metadata\<close> dict is not kept).\<close>

definition log_ai_interaction ::
  "firestore_db \<Rightarrow> string \<Rightarrow> string \<Rightarrow> string \<Rightarrow> int \<Rightarrow> int \<Rightarrow> timestamp \<Rightarrow> firestore_db" where
  "log_ai_interaction db uid aid interaction_type tokens credits now =
     db\<lparr>ai_interactions := ai_interactions db @
          [\<lparr>i_userId = uid, i_agentId = aid, i_type = interaction_type,
            i_tokensUsed = tokens, i_creditsUsed = credits, i_timestamp = now\<rparr>]\<rparr>"

section \<open>Chat endpoint (\<^verbatim>\<open>api/chat.py\<close>)\<close>

datatype error_detail =
    UserIdMismatch
  | UserNotFound
  | InsufficientChatCredits int int
  | InsufficientGenAICredits int int
  | AccessDenied
  | AgentNotFound
  | FailedToDeductCredits
  | RateLimitExceeded

datatype http_exception = HTTPException (status_code: nat) (detail: error_detail)

record ChatRequest =
  cr_user_id :: string
  cr_agent_id :: string
  cr_message :: string
  cr_room_id :: "string option"
  cr_server_id :: "string option"

record ChatResponse =
  c_message :: string
  c_agent_id :: string
  c_tokens_used :: int
  c_credits_remaining :: int

text \<open>
  What \<^verbatim>\<open>LangGraphAgent.call\<close> returns. Its whole body is inside \<^verbatim>\<open>try\<close>: it returns
  either the response with metadata holding \<^verbatim>\<open>tokens_used\<close>, or, from its \<^verbatim>\<open>except\<close>
  clause, a fixed apology with metadata holding the error and no \<^verbatim>\<open>tokens_used\<close>.
\<close>

datatype agent_outcome = Answered string int | Apologised string

definition response_text :: "agent_outcome \<Rightarrow> string" where
  "response_text out =
     (case out of
        Answered text tokens \<Rightarrow> text
      | Apologised err \<Rightarrow> ''I apologize, but I encountered an error processing your request.'')"

text \<open>\<^verbatim>\<open>metadata.get("tokens_used", 0)\<close>\<close>

definition metadata_tokens_used :: "agent_outcome \<Rightarrow> int" where
  "metadata_tokens_used out = (case out of Answered text tokens \<Rightarrow> tokens | Apologised err \<Rightarrow> 0)"

text \<open>
  \<^verbatim>\<open>chat_call\<close>, the body of the handler: an \<^verbatim>\<open>HTTPException\<close> raised is \<open>Inl\<close>, the
  response is \<open>Inr\<close>, together with the database after the call. \<open>agent_out\<close> is what
  \<^verbatim>\<open>agent.call\<close> returns when the handler reaches it.
\<close>

definition chat_call ::
  "settings \<Rightarrow> firestore_db \<Rightarrow> ChatRequest \<Rightarrow> string \<Rightarrow> agent_outcome \<Rightarrow> timestamp
     \<Rightarrow> (http_exception + ChatResponse) \<times> firestore_db" where
  "chat_call cfg db chat_request current_user agent_out now =
     (if cr_user_id chat_request \<noteq> current_user then (Inl (HTTPException 403 UserIdMismatch), db)
      else
        (case get_user_credits cfg db (cr_user_id chat_request) now of
           None \<Rightarrow> (Inl (HTTPException 404 UserNotFound), db)
         | Some user_credits \<Rightarrow>
             (if chat_credits user_credits < chat_credit_cost cfg
              then (Inl (HTTPException 402
                      (InsufficientChatCredits (chat_credit_cost cfg) (chat_credits user_credits))), db)
              else if \<not> check_user_agent_access db
                          (cr_user_id chat_request) (cr_agent_id chat_request) now
              then (Inl (HTTPException 403 AccessDenied), db)
              else
                (case get_agent_personality db (cr_agent_id chat_request) now of
                   None \<Rightarrow> (Inl (HTTPException 404 AgentNotFound), db)
                 | Some agent_personality \<Rightarrow>
                     (case deduct_credits db (cr_user_id chat_request) ''chat''
                             (chat_credit_cost cfg) now of
                        ((success, remaining_credits), db') \<Rightarrow>
                          (if \<not> success then (Inl (HTTPException 402 FailedToDeductCredits), db')
                           else
                             (Inr \<lparr>c_message = response_text agent_out,
                                   c_agent_id = cr_agent_id chat_request,
                                   c_tokens_used = metadata_tokens_used agent_out,
                                   c_credits_remaining = remaining_credits\<rparr>,
                              log_ai_interaction db' (cr_user_id chat_request)
                                (cr_agent_id chat_request) ''chat''
                                (metadata_tokens_used agent_out) (chat_credit_cost cfg) now)))))))"

text \<open>
  The same handler with its collaborators made visible. The agent is a function from the
  personality and the message to what \<^verbatim>\<open>agent.call\<close> returns, consulted only where the
  handler calls it, and every call the handler makes on a collaborator (the Firestore
  service, the agent) is recorded, in the order in which the handler makes it.
\<close>

datatype collaborator_call =
    LimiterHit
  | GetUserCredits string
  | CheckUserAgentAccess string string
  | GetAgentPersonality string
  | AgentCall string string
  | DeductCredits string string int
  | LogAiInteraction string string

definition chat_call_traced ::
  "settings \<Rightarrow> firestore_db \<Rightarrow> ChatRequest \<Rightarrow> string
     \<Rightarrow> (AgentPersonality \<Rightarrow> string \<Rightarrow> agent_outcome) \<Rightarrow> timestamp
     \<Rightarrow> (http_exception + ChatResponse) \<times> firestore_db \<times> collaborator_call list" where
  "chat_call_traced cfg db chat_request current_user agent now =
     (if cr_user_id chat_request \<noteq> current_user
      then (Inl (HTTPException 403 UserIdMismatch), db, [])
      else
        (let calls1 = [GetUserCredits (cr_user_id chat_request)]
         in case get_user_credits cfg db (cr_user_id chat_request) now of
           None \<Rightarrow> (Inl (HTTPException 404 UserNotFound), db, calls1)
         | Some user_credits \<Rightarrow>
             (if chat_credits user_credits < chat_credit_cost cfg
              then (Inl (HTTPException 402
                      (InsufficientChatCredits (chat_credit_cost cfg) (chat_credits user_credits))),
                    db, calls1)
              else
                (let calls2 = calls1 @
                       [CheckUserAgentAccess (cr_user_id chat_request) (cr_agent_id chat_request)]
                 in if \<not> check_user_agent_access db
                            (cr_user_id chat_request) (cr_agent_id chat_request) now
                    then (Inl (HTTPException 403 AccessDenied), db, calls2)
                    else
                      (let calls3 = calls2 @ [GetAgentPersonality (cr_agent_id chat_request)]
                       in case get_agent_personality db (cr_agent_id chat_request) now of
                         None \<Rightarrow> (Inl (HTTPException 404 AgentNotFound), db, calls3)
                       | Some agent_personality \<Rightarrow>
                           (let agent_out = agent agent_personality (cr_message chat_request);
                                calls4 = calls3 @
                                  [AgentCall (cr_agent_id chat_request) (cr_message chat_request)];
                                calls5 = calls4 @
                                  [DeductCredits (cr_user_id chat_request) ''chat''
                                     (chat_credit_cost cfg)]
                            in case deduct_credits db (cr_user_id chat_request) ''chat''
                                      (chat_credit_cost cfg) now of
                                 ((success, remaining_credits), db') \<Rightarrow>
                                   (if \<not> success
                                    then (Inl (HTTPException 402 FailedToDeductCredits), db', calls5)
                                    else
                                      (Inr \<lparr>c_message = response_text agent_out,
                                            c_agent_id = cr_agent_id chat_request,
                                            c_tokens_used = metadata_tokens_used agent_out,
                                            c_credits_remaining = remaining_credits\<rparr>,
                                       log_ai_interaction db' (cr_user_id chat_request)
                                         (cr_agent_id chat_request) ''chat''
                                         (metadata_tokens_used agent_out) (chat_credit_cost cfg) now,
                                       calls5 @
                                         [LogAiInteraction (cr_user_id chat_request)
                                            (cr_agent_id chat_request)]))))))))"

text \<open>
  The endpoint as the router registers it: \<^verbatim>\<open>@rate_limit_check(5)\<close>
  (\<^verbatim>\<open>middleware/rate_limit.py\<close>) wraps the handler in the limiter of the \<^verbatim>\<open>slowapi\<close>
  library, which is consulted when the wrapped function is called and raises
  \<^verbatim>\<open>RateLimitExceeded\<close> instead of running the handler; \<^verbatim>\<open>main.py\<close> answers that exception
  with status 429. The verdict of the limiter for the request is the parameter
  \<open>limiter_ok\<close>.
\<close>

definition chat_call_endpoint ::
  "settings \<Rightarrow> firestore_db \<Rightarrow> ChatRequest \<Rightarrow> string \<Rightarrow> bool
     \<Rightarrow> (AgentPersonality \<Rightarrow> string \<Rightarrow> agent_outcome) \<Rightarrow> timestamp
     \<Rightarrow> (http_exception + ChatResponse) \<times> firestore_db \<times> collaborator_call list" where
  "chat_call_endpoint cfg db chat_request current_user limiter_ok agent now =
     (if \<not> limiter_ok then (Inl (HTTPException 429 RateLimitExceeded), db, [LimiterHit])
      else
        (case chat_call_traced cfg db chat_request current_user agent now of
           (result, db', calls) \<Rightarrow> (result, db', LimiterHit # calls)))"

text \<open>
  The calls of a request that passes every check, in the order of the handler's text.
\<close>

definition chat_call_sequence :: "settings \<Rightarrow> ChatRequest \<Rightarrow> collaborator_call list" where
  "chat_call_sequence cfg chat_request =
     [LimiterHit,
      GetUserCredits (cr_user_id chat_request),
      CheckUserAgentAccess (cr_user_id chat_request) (cr_agent_id chat_request),
      GetAgentPersonality (cr_agent_id chat_request),
      AgentCall (cr_agent_id chat_request) (cr_message chat_request),
      DeductCredits (cr_user_id chat_request) ''chat'' (chat_credit_cost cfg),
      LogAiInteraction (cr_user_id chat_request) (cr_agent_id chat_request)]"

section \<open>Generation (\<^verbatim>\<open>services/stability_service.py\<close>, \<^verbatim>\<open>api/generate.py\<close>)\<close>

datatype MediaType = IMAGE | MUSIC | ALBUM_ART

datatype GenerationStatus = PENDING | PROCESSING | COMPLETED | FAILED

text \<open>
  \<^verbatim>\<open>get_generation_cost\<close>. The final \<^verbatim>\<open>else\<close> of the source raises for a value that is
  none of the three members of the enum; the datatype has no such value.
\<close>

fun get_generation_cost :: "settings \<Rightarrow> MediaType \<Rightarrow> int option \<Rightarrow> int" where
  "get_generation_cost cfg IMAGE duration = image_generation_cost cfg"
| "get_generation_cost cfg MUSIC duration = music_generation_cost cfg"
| "get_generation_cost cfg ALBUM_ART duration = image_generation_cost cfg"

text \<open>The request data \<^verbatim>\<open>generate_music\<close> posts to the provider.\<close>

record music_request_data =
  text_prompt :: string
  data_duration :: int
  data_style :: "string option"

definition generate_music_data :: "string \<Rightarrow> int \<Rightarrow> string option \<Rightarrow> music_request_data" where
  "generate_music_data prompt duration style =
     (let duration = min duration 180
      in \<lparr>text_prompt = prompt, data_duration = duration,
          data_style = (case style of None \<Rightarrow> None | Some st \<Rightarrow> if st = [] then None else Some st)\<rparr>)"

record GenerateRequest =
  gr_user_id :: string
  gr_prompt :: string
  gr_media_type :: MediaType
  gr_style :: "string option"
  gr_duration :: "int option"

record GenerateResponse =
  request_id :: string
  status :: GenerationStatus
  media_url :: "string option"
  media_type :: MediaType
  credits_used :: int
  credits_remaining :: int
  error :: "string option"

text \<open>
  The outcome of the provider call (\<^verbatim>\<open>generate_image\<close>, \<^verbatim>\<open>generate_music\<close> or
  \<^verbatim>\<open>generate_album_art\<close>): the URL of the media, or the exception it raised.
\<close>

datatype provider_result = Generated string | ProviderError string

definition generate_content ::
  "settings \<Rightarrow> firestore_db \<Rightarrow> GenerateRequest \<Rightarrow> string \<Rightarrow> provider_result \<Rightarrow> string \<Rightarrow> timestamp
     \<Rightarrow> (http_exception + GenerateResponse) \<times> firestore_db" where
  "generate_content cfg db request current_user provider rid now =
     (if gr_user_id request \<noteq> current_user then (Inl (HTTPException 403 UserIdMismatch), db)
      else
        (let credit_cost = get_generation_cost cfg (gr_media_type request) (gr_duration request)
         in case get_user_credits cfg db (gr_user_id request) now of
              None \<Rightarrow> (Inl (HTTPException 404 UserNotFound), db)
            | Some user_credits \<Rightarrow>
                if gen_ai_credits user_credits < credit_cost
                then (Inl (HTTPException 402
                        (InsufficientGenAICredits credit_cost (gen_ai_credits user_credits))), db)
                else
                  (case provider of
                     ProviderError e \<Rightarrow>
                       (Inr \<lparr>request_id = rid, status = FAILED, media_url = None,
                             media_type = gr_media_type request, credits_used = 0,
                             credits_remaining = gen_ai_credits user_credits, error = Some e\<rparr>, db)
                   | Generated url \<Rightarrow>
                       (case deduct_credits db (gr_user_id request) ''genai'' credit_cost now of
                          ((success, remaining_credits), db') \<Rightarrow>
                            (Inr \<lparr>request_id = rid, status = COMPLETED, media_url = Some url,
                                  media_type = gr_media_type request, credits_used = credit_cost,
                                  credits_remaining = remaining_credits, error = None\<rparr>,
                             log_ai_interaction db' (gr_user_id request) ''stability-ai''
                               ''generation'' 0 credit_cost now)))))"

section \<open>Rate limiter (\<^verbatim>\<open>middleware/rate_limit.py\<close>)\<close>

text \<open>
  \<^verbatim>\<open>self.user_requests\<close> is a \<^verbatim>\<open>defaultdict(deque)\<close>: every user has a queue, empty until
  used. Times are the seconds of \<^verbatim>\<open>time.time()\<close>. The \<^verbatim>\<open>while\<close> loop pops the front of
  the queue as long as it is older than the start of the window.
\<close>

fun clean_old :: "real \<Rightarrow> real list \<Rightarrow> real list" where
  "clean_old window_start [] = []"
| "clean_old window_start (t # q) = (if t < window_start then clean_old window_start q else t # q)"

definition check_rate_limit ::
  "settings \<Rightarrow> (string \<Rightarrow> real list) \<Rightarrow> string \<Rightarrow> real \<Rightarrow> (bool \<times> int) \<times> (string \<Rightarrow> real list)" where
  "check_rate_limit cfg user_requests uid current_time =
     (let window_start = current_time - 60;
          user_queue = clean_old window_start (user_requests uid);
          request_count = int (length user_queue)
      in if rate_limit_per_minute cfg \<le> request_count
         then ((False, 0), user_requests(uid := user_queue))
         else
           (let user_queue' = user_queue @ [current_time];
                remaining = rate_limit_per_minute cfg - int (length user_queue')
            in ((True, remaining), user_requests(uid := user_queue'))))"

text \<open>The checks of one user at the given times, in order, with their results.\<close>

fun check_all ::
  "settings \<Rightarrow> (string \<Rightarrow> real list) \<Rightarrow> string \<Rightarrow> real list
     \<Rightarrow> (bool \<times> int) list \<times> (string \<Rightarrow> real list)" where
  "check_all cfg user_requests uid [] = ([], user_requests)"
| "check_all cfg user_requests uid (t # ts) =
     (case check_rate_limit cfg user_requests uid t of
        (r, user_requests') \<Rightarrow>
          (case check_all cfg user_requests' uid ts of
             (rs, user_requests'') \<Rightarrow> (r # rs, user_requests'')))"

section \<open>Sequences of balance operations\<close>

text \<open>
  A deduct or an add on one account, with the time at which it runs; \<open>run_ops\<close> applies
  a list of them in order.
\<close>

datatype credit_op = Deduct string int | Add string int string

fun apply_op :: "firestore_db \<Rightarrow> string \<Rightarrow> credit_op \<times> timestamp \<Rightarrow> firestore_db" where
  "apply_op db uid (Deduct credit_type amount, now) =
     snd (deduct_credits db uid credit_type amount now)"
| "apply_op db uid (Add credit_type amount reason, now) =
     snd (add_credits db uid credit_type amount reason now)"

fun run_ops :: "firestore_db \<Rightarrow> string \<Rightarrow> (credit_op \<times> timestamp) list \<Rightarrow> firestore_db" where
  "run_ops db uid [] = db"
| "run_ops db uid (x # xs) = run_ops (apply_op db uid x) uid xs"

text \<open>Both stored balances of the account are at least 0.\<close>

definition nonneg_balances :: "firestore_db \<Rightarrow> string \<Rightarrow> bool" where
  "nonneg_balances db uid =
     (case users db uid of
        None \<Rightarrow> True
      | Some data \<Rightarrow>
          (case int_fields data ''chatCredits'' of None \<Rightarrow> True | Some v \<Rightarrow> 0 \<le> v) \<and>
          (case int_fields data ''genAICredits'' of None \<Rightarrow> True | Some v \<Rightarrow> 0 \<le> v))"

fun add_amount_nonneg :: "credit_op \<times> timestamp \<Rightarrow> bool" where
  "add_amount_nonneg (Add credit_type amount reason, now) = (0 \<le> amount)"
| "add_amount_nonneg (Deduct credit_type amount, now) = True"

section \<open>Observations used in the statements\<close>

text \<open>The balance \<^verbatim>\<open>deduct_credits\<close> and \<^verbatim>\<open>add_credits\<close> read: a missing field counts as 0.\<close>

definition balance_or_zero :: "firestore_db \<Rightarrow> string \<Rightarrow> string \<Rightarrow> int" where
  "balance_or_zero db uid credit_type =
     (case stored_balance db uid credit_type of None \<Rightarrow> 0 | Some v \<Rightarrow> v)"

definition stored_last_reset :: "firestore_db \<Rightarrow> string \<Rightarrow> timestamp option" where
  "stored_last_reset db uid =
     (case users db uid of None \<Rightarrow> None | Some data \<Rightarrow> time_fields data ''lastCreditReset'')"

text \<open>Thirty days, in microseconds.\<close>

definition thirty_days :: int where
  "thirty_days = 30 * 86400000000"

text \<open>
  The allotment of a tier, chat credits first: the values \<^verbatim>\<open>reset_monthly_credits\<close> assigns
  to \<^verbatim>\<open>new_chat_credits\<close> and \<^verbatim>\<open>new_gen_credits\<close>.
\<close>

definition tier_allotment :: "settings \<Rightarrow> string \<Rightarrow> int \<times> int" where
  "tier_allotment cfg tier =
     (if tier = ''premium'' then (100, 50)
      else if tier = ''pro'' then (500, 200)
      else (free_chat_credits_monthly cfg, free_gen_ai_credits_monthly cfg))"

text \<open>
  The request data of the music call of \<^verbatim>\<open>generate_content\<close>, which passes
  \<^verbatim>\<open>duration=request.duration or 30\<close>.
\<close>

definition music_call_data :: "GenerateRequest \<Rightarrow> music_request_data" where
  "music_call_data request =
     generate_music_data (gr_prompt request)
       (case gr_duration request of None \<Rightarrow> 30 | Some d \<Rightarrow> if d = 0 then 30 else d)
       (gr_style request)"

section \<open>Example data\<close>

definition empty_doc :: document where
  "empty_doc = \<lparr>int_fields = Map.empty, time_fields = Map.empty, str_fields = Map.empty,
                 list_fields = Map.empty, bool_fields = Map.empty\<rparr>"

text \<open>A user document with the given balances, tier and time of the last reset.\<close>

definition account_doc :: "int \<Rightarrow> int \<Rightarrow> string \<Rightarrow> timestamp \<Rightarrow> document" where
  "account_doc chat gen tier reset =
     empty_doc\<lparr>int_fields := [''chatCredits'' \<mapsto> chat, ''genAICredits'' \<mapsto> gen],
               str_fields := [''subscriptionTier'' \<mapsto> tier],
               time_fields := [''lastCreditReset'' \<mapsto> reset]\<rparr>"

text \<open>
  Three users: \<open>u1\<close> on the free tier with 5 chat and 3 generation credits, \<open>u2\<close> on the
  pro tier with 0 and 1, and \<open>u3\<close>, whose document has no credit fields. Two agents: the
  public \<open>agent_a\<close> and \<open>agent_p\<close>, private to its owner \<open>u9\<close>.
\<close>

definition example_db :: firestore_db where
  "example_db =
     \<lparr>users = [''u1'' \<mapsto> account_doc 5 3 ''free'' 0,
               ''u2'' \<mapsto> account_doc 0 1 ''pro'' 0,
               ''u3'' \<mapsto> empty_doc],
      ai_agents = [''agent_a'' \<mapsto> empty_doc\<lparr>bool_fields := [''isPublic'' \<mapsto> True]\<rparr>,
                   ''agent_p'' \<mapsto> empty_doc\<lparr>str_fields := [''ownerId'' \<mapsto> ''u9'']\<rparr>],
      ai_interactions = [], credit_transactions = []\<rparr>"

text \<open>An agent that answers every message with the same two words.\<close>

definition example_agent :: "AgentPersonality \<Rightarrow> string \<Rightarrow> agent_outcome" where
  "example_agent personality message = Answered ''hi there'' 2"

text \<open>A chat request with the given user and agent.\<close>

definition example_request :: "string \<Rightarrow> string \<Rightarrow> ChatRequest" where
  "example_request uid aid =
     \<lparr>cr_user_id = uid, cr_agent_id = aid, cr_message = ''hello'', cr_room_id = None,
      cr_server_id = None\<rparr>"

section \<open>Conditional deduction\<close>

lemma stamp_key_not_credit_field:
  "''last'' @ capitalize credit_type @ ''CreditUsed'' \<noteq> credit_field t"
  by (simp add: credit_field_def)

text \<open>
  C1. \<^verbatim>\<open>deduct_credits\<close> is a conditional decrement. For a user whose document stores a
  balance \<open>current\<close> of the credit type: when \<open>amount \<le> current\<close> the call stores
  \<open>current - amount\<close> and returns \<open>(True, current - amount)\<close>; when \<open>current < amount\<close>
  it returns \<open>(False, current)\<close> and the database is the one before the call. In both
  cases the outcome is a returned pair.
\<close>

theorem deduct_credits_conditional_decrement:
  assumes "stored_balance db uid credit_type = Some current"
  shows "(amount \<le> current \<longrightarrow>
            fst (deduct_credits db uid credit_type amount now) = (True, current - amount) \<and>
            stored_balance (snd (deduct_credits db uid credit_type amount now)) uid credit_type
              = Some (current - amount))
       \<and> (current < amount \<longrightarrow>
            deduct_credits db uid credit_type amount now = ((False, current), db))"
  using assms
  by (auto simp: deduct_credits_def stored_balance_def Let_def split: option.splits)

theorem deduct_credits_conditional_decrement_witness:
  "stored_balance example_db ''u1'' ''chat'' = Some 5
   \<and> fst (deduct_credits example_db ''u1'' ''chat'' 1 7) = (True, 4)
   \<and> stored_balance (snd (deduct_credits example_db ''u1'' ''chat'' 1 7)) ''u1'' ''chat'' = Some 4
   \<and> deduct_credits example_db ''u1'' ''chat'' 9 7 = ((False, 5), example_db)"
proof -
  have h: "stored_balance example_db ''u1'' ''chat'' = Some 5"
    by (simp add: stored_balance_def example_db_def account_doc_def empty_doc_def credit_field_def)
  from deduct_credits_conditional_decrement [OF h, of 1 7]
       deduct_credits_conditional_decrement [OF h, of 9 7] h
  show ?thesis by simp
qed

section \<open>Non-negative balances\<close>

lemma deduct_credits_nonneg:
  "nonneg_balances db uid \<Longrightarrow>
     nonneg_balances (snd (deduct_credits db uid credit_type amount now)) uid"
  by (auto simp: nonneg_balances_def deduct_credits_def credit_field_def Let_def
           split: option.splits if_splits)

lemma add_credits_nonneg:
  "0 \<le> amount \<Longrightarrow> nonneg_balances db uid \<Longrightarrow>
     nonneg_balances (snd (add_credits db uid credit_type amount reason now)) uid"
  by (auto simp: nonneg_balances_def add_credits_def log_credit_transaction_def credit_field_def
                 Let_def
           split: option.splits if_splits)

lemma apply_op_nonneg:
  "add_amount_nonneg x \<Longrightarrow> nonneg_balances db uid \<Longrightarrow> nonneg_balances (apply_op db uid x) uid"
  by (cases x rule: add_amount_nonneg.cases) (simp_all add: deduct_credits_nonneg add_credits_nonneg)

lemma run_ops_nonneg:
  "list_all add_amount_nonneg ops \<Longrightarrow> nonneg_balances db uid \<Longrightarrow>
     nonneg_balances (run_ops db uid ops) uid"
  by (induction ops arbitrary: db) (simp_all add: apply_op_nonneg)

text \<open>
  C2, as stated: every sequence of deduct and add operations keeps both balances at
  least 0. It fails: \<^verbatim>\<open>add_credits\<close> does not look at the sign of its amount, and adding
  \<open>-1\<close> to the chat balance 0 of \<open>u2\<close> stores \<open>-1\<close>.
\<close>

theorem add_negative_amount_counterexample:
  "nonneg_balances example_db ''u2''
   \<and> stored_balance (run_ops example_db ''u2'' [(Add ''chat'' (- 1) ''purchase'', 7)]) ''u2'' ''chat''
       = Some (- 1)
   \<and> \<not> nonneg_balances (run_ops example_db ''u2'' [(Add ''chat'' (- 1) ''purchase'', 7)]) ''u2''"
  by (simp add: nonneg_balances_def stored_balance_def example_db_def account_doc_def
        empty_doc_def add_credits_def log_credit_transaction_def credit_field_def Let_def)

text \<open>
  C2, amended: for every sequence of deduct operations (of any amount) and add operations
  of non-negative amounts on an account whose stored balances are at least 0, both stored
  balances are at least 0 after every operation, that is, after every prefix of the
  sequence.
\<close>

theorem balances_stay_nonneg:
  assumes "nonneg_balances db uid" and "list_all add_amount_nonneg ops"
  shows "nonneg_balances (run_ops db uid (take k ops)) uid"
proof -
  from assms(2) have "list_all add_amount_nonneg (take k ops)"
    by (auto simp: list_all_iff dest: in_set_takeD)
  then show ?thesis using assms(1) by (rule run_ops_nonneg)
qed

theorem balances_stay_nonneg_witness:
  "nonneg_balances example_db ''u1''
   \<and> list_all add_amount_nonneg
       [(Deduct ''chat'' 2, 7), (Add ''genai'' 4 ''purchase'', 8), (Deduct ''chat'' 9, 9)]
   \<and> nonneg_balances (run_ops example_db ''u1''
        (take 3 [(Deduct ''chat'' 2, 7), (Add ''genai'' 4 ''purchase'', 8), (Deduct ''chat'' 9, 9)]))
       ''u1''"
proof -
  have a: "nonneg_balances example_db ''u1''"
    by (simp add: nonneg_balances_def example_db_def account_doc_def empty_doc_def)
  have b: "list_all add_amount_nonneg
             [(Deduct ''chat'' 2, 7), (Add ''genai'' 4 ''purchase'', 8), (Deduct ''chat'' 9, 9)]"
    by simp
  from balances_stay_nonneg [OF a b, of 3] a b show ?thesis by simp
qed

section \<open>Monthly reset: auxiliary facts\<close>

lemma int_le_div_iff:
  fixes k d c :: int
  assumes c: "0 < c"
  shows "(k \<le> d div c) = (k * c \<le> d)"
proof
  assume "k \<le> d div c"
  then have "k * c \<le> (d div c) * c" using c by (simp add: mult_right_mono)
  moreover have "0 \<le> d mod c" using c by simp
  moreover have "(d div c) * c + d mod c = d" by simp
  ultimately show "k * c \<le> d" by linarith
next
  assume "k * c \<le> d"
  then have "(k * c) div c \<le> d div c" using c by (rule zdiv_mono1)
  then show "k \<le> d div c" using c by simp
qed

lemma days_ge_30: "(30 \<le> timedelta_days d) = (thirty_days \<le> d)"
  unfolding timedelta_days_def thirty_days_def
  using int_le_div_iff [of 86400000000 30 d] by simp

lemma get_user_credits_SomeD:
  "get_user_credits cfg db uid now = Some uc \<Longrightarrow> \<exists>data. users db uid = Some data"
  by (cases "users db uid") (simp_all add: get_user_credits_def)

lemma reset_result:
  assumes "get_user_credits cfg db uid now = Some uc"
  shows "fst (reset_monthly_credits cfg db uid now) = (thirty_days \<le> now - last_reset uc)"
proof -
  from assms obtain data where "users db uid = Some data"
    by (auto dest: get_user_credits_SomeD)
  with assms show ?thesis
    by (simp add: reset_monthly_credits_def days_ge_30 Let_def)
qed

lemma reset_not_elapsed:
  assumes "get_user_credits cfg db uid now = Some uc" "\<not> thirty_days \<le> now - last_reset uc"
  shows "reset_monthly_credits cfg db uid now = (False, db)"
  using assms by (simp add: reset_monthly_credits_def days_ge_30)

lemma reset_elapsed_db:
  assumes g: "get_user_credits cfg db uid now = Some uc"
      and e: "thirty_days \<le> now - last_reset uc"
      and u: "users db uid = Some data"
  shows "snd (reset_monthly_credits cfg db uid now) =
           db\<lparr>users := (users db)(uid \<mapsto> data
              \<lparr>int_fields := (int_fields data)
                 (''chatCredits'' \<mapsto> fst (tier_allotment cfg (subscription_tier uc)),
                  ''genAICredits'' \<mapsto> snd (tier_allotment cfg (subscription_tier uc))),
               time_fields := (time_fields data)(''lastCreditReset'' \<mapsto> now)\<rparr>)\<rparr>"
  using g e u by (simp add: reset_monthly_credits_def days_ge_30 Let_def tier_allotment_def)

lemma reset_elapsed:
  assumes g: "get_user_credits cfg db uid now = Some uc"
      and e: "thirty_days \<le> now - last_reset uc"
  shows "stored_balance (snd (reset_monthly_credits cfg db uid now)) uid ''chat''
           = Some (fst (tier_allotment cfg (subscription_tier uc)))
       \<and> stored_balance (snd (reset_monthly_credits cfg db uid now)) uid ''genai''
           = Some (snd (tier_allotment cfg (subscription_tier uc)))
       \<and> stored_last_reset (snd (reset_monthly_credits cfg db uid now)) uid = Some now"
proof -
  from g obtain data where u: "users db uid = Some data"
    by (auto dest: get_user_credits_SomeD)
  show ?thesis
    unfolding reset_elapsed_db [OF g e u]
    by (simp add: stored_balance_def stored_last_reset_def credit_field_def)
qed

lemma reset_False_unchanged:
  "fst (reset_monthly_credits cfg db uid now) = False \<Longrightarrow>
     snd (reset_monthly_credits cfg db uid now) = db"
proof (cases "get_user_credits cfg db uid now")
  case None
  then show ?thesis by (simp add: reset_monthly_credits_def)
next
  case (Some uc)
  assume "fst (reset_monthly_credits cfg db uid now) = False"
  with reset_result [OF Some] have "\<not> thirty_days \<le> now - last_reset uc" by simp
  with Some show ?thesis by (simp add: reset_not_elapsed)
qed

lemma reset_again:
  assumes g: "get_user_credits cfg db uid now = Some uc"
      and e: "thirty_days \<le> now - last_reset uc"
      and n: "now2 - now < thirty_days"
  shows "reset_monthly_credits cfg (snd (reset_monthly_credits cfg db uid now)) uid now2
           = (False, snd (reset_monthly_credits cfg db uid now))"
proof -
  let ?db' = "snd (reset_monthly_credits cfg db uid now)"
  show ?thesis
  proof (cases "get_user_credits cfg ?db' uid now2")
    case None
    then show ?thesis by (simp add: reset_monthly_credits_def)
  next
    case (Some uc')
    from reset_elapsed [OF g e] have "stored_last_reset ?db' uid = Some now" by simp
    with Some have "last_reset uc' = now"
      by (auto simp: stored_last_reset_def get_user_credits_def Let_def
               split: option.splits if_splits)
    with n have "\<not> thirty_days \<le> now2 - last_reset uc'" by simp
    with Some show ?thesis by (rule reset_not_elapsed)
  qed
qed

section \<open>Rate limiter: auxiliary facts\<close>

lemma clean_old_dropWhile: "clean_old w q = dropWhile (\<lambda>x. x < w) q"
  by (induction q) simp_all

lemma clean_old_sorted: "sorted q \<Longrightarrow> clean_old w q = filter (\<lambda>x. w \<le> x) q"
proof (induction q)
  case Nil
  then show ?case by simp
next
  case (Cons a q)
  show ?case
  proof (cases "a < w")
    case True
    with Cons show ?thesis by simp
  next
    case False
    with Cons.prems have "\<forall>x\<in>set q. w \<le> x" by auto
    then have "filter (\<lambda>x. w \<le> x) q = q" by (simp add: filter_id_conv)
    with False show ?thesis by simp
  qed
qed

lemma clean_old_keep: "\<forall>x\<in>set q. w \<le> x \<Longrightarrow> clean_old w q = q"
  by (cases q) auto

lemma clean_old_drop_head: "q \<noteq> [] \<Longrightarrow> hd q < w \<Longrightarrow> length (clean_old w q) < length q"
proof (cases q)
  case Nil
  assume "q \<noteq> []" with Nil show ?thesis by simp
next
  case (Cons a r)
  assume "hd q < w"
  with Cons have "clean_old w q = clean_old w r" by simp
  moreover have "length (clean_old w r) \<le> length r"
    by (simp add: clean_old_dropWhile length_dropWhile_le)
  ultimately show ?thesis using Cons by simp
qed

lemma check_rate_limit_step:
  "check_rate_limit cfg ur uid t =
     (let q = clean_old (t - 60) (ur uid)
      in if int (length q) < rate_limit_per_minute cfg
         then ((True, rate_limit_per_minute cfg - int (length q) - 1), ur(uid := q @ [t]))
         else ((False, 0), ur(uid := q)))"
  by (simp add: check_rate_limit_def Let_def)

lemma check_all_under_limit:
  assumes "\<forall>x\<in>set (ur uid) \<union> set ts. T \<le> x \<and> x \<le> T + 60"
      and "int (length (ur uid) + length ts) \<le> rate_limit_per_minute cfg"
  shows "map fst (fst (check_all cfg ur uid ts)) = replicate (length ts) True
       \<and> snd (check_all cfg ur uid ts) uid = ur uid @ ts"
  using assms
proof (induction ts arbitrary: ur)
  case Nil
  then show ?case by simp
next
  case (Cons t ts)
  let ?q = "ur uid"
  have keep: "clean_old (t - 60) ?q = ?q"
  proof (rule clean_old_keep, rule ballI)
    fix x assume "x \<in> set ?q"
    with Cons.prems(1) have "T \<le> x" by auto
    moreover from Cons.prems(1) have "t \<le> T + 60" by auto
    ultimately show "t - 60 \<le> x" by simp
  qed
  from Cons.prems(2) have lt: "int (length ?q) < rate_limit_per_minute cfg" by simp
  let ?ur' = "ur(uid := ?q @ [t])"
  have step: "check_rate_limit cfg ur uid t =
      ((True, rate_limit_per_minute cfg - int (length ?q) - 1), ?ur')"
    using keep lt by (simp add: check_rate_limit_step Let_def)
  have p1: "\<forall>x\<in>set (?ur' uid) \<union> set ts. T \<le> x \<and> x \<le> T + 60"
    using Cons.prems(1) by auto
  have p2: "int (length (?ur' uid) + length ts) \<le> rate_limit_per_minute cfg"
    using Cons.prems(2) by simp
  obtain rs ur2 where c: "check_all cfg ?ur' uid ts = (rs, ur2)"
    by (cases "check_all cfg ?ur' uid ts")
  have "map fst (fst (check_all cfg ?ur' uid ts)) = replicate (length ts) True
       \<and> snd (check_all cfg ?ur' uid ts) uid = ?ur' uid @ ts"
    using p1 p2 by (rule Cons.IH)
  then have "map fst rs = replicate (length ts) True" and "ur2 uid = (?q @ [t]) @ ts"
    unfolding c by simp_all
  with step c show ?case by simp
qed

lemma rate_limit_window:
  assumes e: "ur uid = []"
      and l: "int (length ts) = rate_limit_per_minute cfg"
      and p: "1 \<le> rate_limit_per_minute cfg"
      and w: "\<forall>x\<in>set ts \<union> {t_next}. T \<le> x \<and> x \<le> T + 60"
      and a: "hd ts + 60 < t_later"
  shows "map fst (fst (check_all cfg ur uid ts)) = replicate (length ts) True
       \<and> check_rate_limit cfg (snd (check_all cfg ur uid ts)) uid t_next
           = ((False, 0), snd (check_all cfg ur uid ts))
       \<and> fst (fst (check_rate_limit cfg (snd (check_all cfg ur uid ts)) uid t_later))"
proof -
  let ?ur1 = "snd (check_all cfg ur uid ts)"
  have h1: "\<forall>x\<in>set (ur uid) \<union> set ts. T \<le> x \<and> x \<le> T + 60" using e w by simp
  have h2: "int (length (ur uid) + length ts) \<le> rate_limit_per_minute cfg" using e l by simp
  from check_all_under_limit [of ur uid ts T cfg, OF h1 h2] e
  have r: "map fst (fst (check_all cfg ur uid ts)) = replicate (length ts) True"
    and q: "?ur1 uid = ts" by simp_all
  have keep: "clean_old (t_next - 60) ts = ts"
  proof (rule clean_old_keep, rule ballI)
    fix x assume "x \<in> set ts"
    with w have "T \<le> x" by auto
    moreover from w have "t_next \<le> T + 60" by auto
    ultimately show "t_next - 60 \<le> x" by simp
  qed
  have "?ur1(uid := ?ur1 uid) = ?ur1" by (rule fun_upd_triv)
  then have triv: "?ur1(uid := ts) = ?ur1" by (simp only: q)
  have full: "check_rate_limit cfg ?ur1 uid t_next = ((False, 0), ?ur1)"
    using keep q l triv by (simp add: check_rate_limit_step Let_def)
  from l p have ne: "ts \<noteq> []" by auto
  from a have "hd ts < t_later - 60" by simp
  with ne have "length (clean_old (t_later - 60) ts) < length ts" by (rule clean_old_drop_head)
  with l have "int (length (clean_old (t_later - 60) ts)) < rate_limit_per_minute cfg" by simp
  with q have later: "fst (fst (check_rate_limit cfg ?ur1 uid t_later))"
    by (simp add: check_rate_limit_step Let_def)
  from r full later show ?thesis by simp
qed

section \<open>Chat endpoint: auxiliary facts\<close>

lemma deduct_credits_failure:
  assumes "deduct_credits db uid ct a now = ((False, r), db')"
  shows "db' = db"
proof (cases "users db uid")
  case None
  with assms show ?thesis by (simp add: deduct_credits_def)
next
  case (Some data)
  with assms show ?thesis
    by (simp add: deduct_credits_def Let_def split: if_splits)
qed

lemma deduct_credits_success:
  assumes "deduct_credits db uid ct a now = ((True, r), db')"
  shows "r = balance_or_zero db uid ct - a"
    and "a \<le> balance_or_zero db uid ct"
    and "stored_balance db' uid ct = Some r"
    and "ai_interactions db' = ai_interactions db"
    and "credit_transactions db' = credit_transactions db"
    and "ai_agents db' = ai_agents db"
proof -
  from assms obtain data where u: "users db uid = Some data"
    by (cases "users db uid") (simp_all add: deduct_credits_def)
  let ?cur = "case int_fields data (credit_field ct) of None \<Rightarrow> 0 | Some v \<Rightarrow> v"
  from assms u have le: "\<not> ?cur < a"
    by (simp add: deduct_credits_def Let_def split: if_splits)
  from assms u le have r: "r = ?cur - a"
    and d: "db' = db\<lparr>users := (users db)(uid \<mapsto> data
              \<lparr>int_fields := (int_fields data)(credit_field ct \<mapsto> ?cur - a),
               time_fields := (time_fields data)
                 (''last'' @ capitalize ct @ ''CreditUsed'' \<mapsto> now)\<rparr>)\<rparr>"
    by (auto simp add: deduct_credits_def Let_def)
  have b: "balance_or_zero db uid ct = ?cur"
    using u by (simp add: balance_or_zero_def stored_balance_def)
  show "r = balance_or_zero db uid ct - a" using r b by simp
  show "a \<le> balance_or_zero db uid ct" using le b by simp
  show "stored_balance db' uid ct = Some r" using r d by (simp add: stored_balance_def)
  show "ai_interactions db' = ai_interactions db" using d by simp
  show "credit_transactions db' = credit_transactions db" using d by simp
  show "ai_agents db' = ai_agents db" using d by simp
qed

lemma access_agent_found:
  "check_user_agent_access db uid aid now \<Longrightarrow> \<exists>agent. get_agent_personality db aid now = Some agent"
  by (cases "get_agent_personality db aid now") (simp_all add: check_user_agent_access_def)

lemma chat_call_mismatch:
  "cr_user_id req \<noteq> cur \<Longrightarrow>
     chat_call cfg db req cur out now = (Inl (HTTPException 403 UserIdMismatch), db)"
  by (simp add: chat_call_def)

lemma chat_call_user_not_found:
  "cr_user_id req = cur \<Longrightarrow> get_user_credits cfg db cur now = None \<Longrightarrow>
     chat_call cfg db req cur out now = (Inl (HTTPException 404 UserNotFound), db)"
  by (simp add: chat_call_def)

lemma chat_call_insufficient:
  "cr_user_id req = cur \<Longrightarrow> get_user_credits cfg db cur now = Some uc \<Longrightarrow>
   chat_credits uc < chat_credit_cost cfg \<Longrightarrow>
     chat_call cfg db req cur out now =
       (Inl (HTTPException 402 (InsufficientChatCredits (chat_credit_cost cfg) (chat_credits uc))), db)"
  by (simp add: chat_call_def)

lemma chat_call_denied:
  "cr_user_id req = cur \<Longrightarrow> get_user_credits cfg db cur now = Some uc \<Longrightarrow>
   \<not> chat_credits uc < chat_credit_cost cfg \<Longrightarrow>
   \<not> check_user_agent_access db cur (cr_agent_id req) now \<Longrightarrow>
     chat_call cfg db req cur out now = (Inl (HTTPException 403 AccessDenied), db)"
  by (simp add: chat_call_def)

lemma chat_call_metered:
  assumes "cr_user_id req = cur" "get_user_credits cfg db cur now = Some uc"
    "\<not> chat_credits uc < chat_credit_cost cfg"
    "check_user_agent_access db cur (cr_agent_id req) now"
  shows "chat_call cfg db req cur out now =
     (if fst (fst (deduct_credits db cur ''chat'' (chat_credit_cost cfg) now))
      then (Inr \<lparr>c_message = response_text out, c_agent_id = cr_agent_id req,
                 c_tokens_used = metadata_tokens_used out,
                 c_credits_remaining = snd (fst (deduct_credits db cur ''chat'' (chat_credit_cost cfg) now))\<rparr>,
            log_ai_interaction (snd (deduct_credits db cur ''chat'' (chat_credit_cost cfg) now))
              cur (cr_agent_id req) ''chat'' (metadata_tokens_used out) (chat_credit_cost cfg) now)
      else (Inl (HTTPException 402 FailedToDeductCredits), db))"
proof -
  from assms(4) obtain agent where a: "get_agent_personality db (cr_agent_id req) now = Some agent"
    by (auto dest: access_agent_found)
  obtain ok r db' where d: "deduct_credits db cur ''chat'' (chat_credit_cost cfg) now = ((ok, r), db')"
    by (metis surj_pair)
  show ?thesis
  proof (cases ok)
    case True
    with assms a d show ?thesis by (simp add: chat_call_def)
  next
    case False
    with d have "db' = db" by (auto dest: deduct_credits_failure)
    with False assms a d show ?thesis by (simp add: chat_call_def)
  qed
qed

lemma chat_call_error_unchanged:
  assumes "chat_call cfg db req cur out now = (Inl e, db')"
  shows "db' = db"
proof (cases "cr_user_id req = cur")
  case False
  with assms show ?thesis by (simp add: chat_call_mismatch)
next
  case eq: True
  show ?thesis
  proof (cases "get_user_credits cfg db cur now")
    case None
    with assms eq show ?thesis by (simp add: chat_call_user_not_found)
  next
    case (Some uc)
    show ?thesis
    proof (cases "chat_credits uc < chat_credit_cost cfg")
      case True
      with assms eq Some show ?thesis by (simp add: chat_call_insufficient)
    next
      case enough: False
      show ?thesis
      proof (cases "check_user_agent_access db cur (cr_agent_id req) now")
        case False
        with assms eq Some enough show ?thesis by (simp add: chat_call_denied)
      next
        case True
        from chat_call_metered [OF eq Some enough True, of out] assms show ?thesis
          by (simp split: if_splits)
      qed
    qed
  qed
qed

lemma chat_call_success:
  assumes "chat_call cfg db req cur out now = (Inr resp, db')"
  shows "ai_interactions db' = ai_interactions db @
           [\<lparr>i_userId = cr_user_id req, i_agentId = cr_agent_id req, i_type = ''chat'',
             i_tokensUsed = c_tokens_used resp, i_creditsUsed = chat_credit_cost cfg,
             i_timestamp = now\<rparr>]"
    and "credit_transactions db' = credit_transactions db"
    and "c_credits_remaining resp = balance_or_zero db (cr_user_id req) ''chat'' - chat_credit_cost cfg"
    and "stored_balance db' (cr_user_id req) ''chat'' = Some (c_credits_remaining resp)"
proof -
  from assms have eq: "cr_user_id req = cur"
    by (cases "cr_user_id req = cur") (simp_all add: chat_call_mismatch)
  from assms eq obtain uc where g: "get_user_credits cfg db cur now = Some uc"
    by (cases "get_user_credits cfg db cur now") (simp_all add: chat_call_user_not_found)
  from assms eq g have enough: "\<not> chat_credits uc < chat_credit_cost cfg"
    by (cases "chat_credits uc < chat_credit_cost cfg") (simp_all add: chat_call_insufficient)
  from assms eq g enough have acc: "check_user_agent_access db cur (cr_agent_id req) now"
    by (cases "check_user_agent_access db cur (cr_agent_id req) now") (simp_all add: chat_call_denied)
  let ?d = "deduct_credits db cur ''chat'' (chat_credit_cost cfg) now"
  from chat_call_metered [OF eq g enough acc, of out] assms
  have ok: "fst (fst ?d)"
    and resp: "resp = \<lparr>c_message = response_text out, c_agent_id = cr_agent_id req,
                 c_tokens_used = metadata_tokens_used out, c_credits_remaining = snd (fst ?d)\<rparr>"
    and db': "db' = log_ai_interaction (snd ?d) cur (cr_agent_id req) ''chat''
                (metadata_tokens_used out) (chat_credit_cost cfg) now"
    by (simp_all split: if_splits)
  from ok have d: "?d = ((True, snd (fst ?d)), snd ?d)" by (cases ?d) auto
  note s = deduct_credits_success [OF d]
  show "ai_interactions db' = ai_interactions db @
           [\<lparr>i_userId = cr_user_id req, i_agentId = cr_agent_id req, i_type = ''chat'',
             i_tokensUsed = c_tokens_used resp, i_creditsUsed = chat_credit_cost cfg,
             i_timestamp = now\<rparr>]"
    using db' resp eq s(4) by (simp add: log_ai_interaction_def)
  show "credit_transactions db' = credit_transactions db"
    using db' s(5) by (simp add: log_ai_interaction_def)
  show "c_credits_remaining resp = balance_or_zero db (cr_user_id req) ''chat'' - chat_credit_cost cfg"
    using resp eq s(1) by simp
  show "stored_balance db' (cr_user_id req) ''chat'' = Some (c_credits_remaining resp)"
    using db' resp eq s(3) by (simp add: log_ai_interaction_def stored_balance_def)
qed

section \<open>Generation endpoint\<close>

text \<open>
  C3. On the generation path, when the provider call succeeds and the deduction that
  follows fails, the response carries the generated media and reports
  \<open>credits_used = 0\<close>. The handler does return the media, but it reports the full cost:
  the document of \<open>u3\<close> has no \<^verbatim>\<open>genAICredits\<close> field, so the pre-check reads the
  free-tier default 25 and passes, the deduction reads 0 and fails, and the response is
  \<^verbatim>\<open>COMPLETED\<close> with \<open>credits_used = 1\<close> while nothing was deducted.
\<close>

theorem generate_content_failed_deduction_reports_cost:
  "get_generation_cost default_settings IMAGE None = 1
   \<and> fst (deduct_credits example_db ''u3'' ''genai'' 1 7) = (False, 0)
   \<and> generate_content default_settings example_db
        \<lparr>gr_user_id = ''u3'', gr_prompt = ''a cat'', gr_media_type = IMAGE, gr_style = None,
         gr_duration = None\<rparr>
        ''u3'' (Generated ''https://storage/cat.png'') ''r1'' 7
      = (Inr \<lparr>request_id = ''r1'', status = COMPLETED,
              media_url = Some ''https://storage/cat.png'', media_type = IMAGE,
              credits_used = 1, credits_remaining = 0, error = None\<rparr>,
         log_ai_interaction example_db ''u3'' ''stability-ai'' ''generation'' 0 1 7)"
  by (simp add: generate_content_def get_user_credits_def deduct_credits_def credit_field_def
        example_db_def account_doc_def empty_doc_def default_settings_def Let_def)

section \<open>Chat endpoint\<close>

text \<open>
  C4, as stated: every successful chat call appends exactly one \<^verbatim>\<open>CreditTransaction\<close> of
  kind deduct with the chat cost as amount. It fails: the chat path never writes to
  \<^verbatim>\<open>credit_transactions\<close>. A successful call of \<open>u1\<close> to the public agent leaves that
  collection empty.
\<close>

theorem chat_call_no_credit_transaction_counterexample:
  "fst (chat_call default_settings example_db
        \<lparr>cr_user_id = ''u1'', cr_agent_id = ''agent_a'', cr_message = ''hello'',
         cr_room_id = None, cr_server_id = None\<rparr> ''u1'' (Answered ''hi'' 1) 7)
     = Inr \<lparr>c_message = ''hi'', c_agent_id = ''agent_a'', c_tokens_used = 1,
            c_credits_remaining = 4\<rparr>
   \<and> credit_transactions (snd (chat_call default_settings example_db
        \<lparr>cr_user_id = ''u1'', cr_agent_id = ''agent_a'', cr_message = ''hello'',
         cr_room_id = None, cr_server_id = None\<rparr> ''u1'' (Answered ''hi'' 1) 7)) = []"
  by (simp add: chat_call_def get_user_credits_def deduct_credits_def credit_field_def
        check_user_agent_access_def get_agent_personality_def log_ai_interaction_def
        response_text_def metadata_tokens_used_def
        example_db_def account_doc_def empty_doc_def default_settings_def Let_def)

text \<open>
  C4, amended: every successful chat call appends exactly one record to
  \<^verbatim>\<open>ai_interactions\<close>, of type \<^verbatim>\<open>chat\<close> and with \<^verbatim>\<open>creditsUsed\<close> equal to the configured
  chat cost, appends nothing to \<^verbatim>\<open>credit_transactions\<close>, and lowers the stored chat
  balance by the chat cost to the \<^verbatim>\<open>credits_remaining\<close> it returns; every chat call that
  ends in an error leaves the whole database as it was.
\<close>

theorem chat_call_usage_log:
  "(fst (chat_call cfg db req cur out now) = Inr resp \<longrightarrow>
      ai_interactions (snd (chat_call cfg db req cur out now)) = ai_interactions db @
        [\<lparr>i_userId = cr_user_id req, i_agentId = cr_agent_id req, i_type = ''chat'',
          i_tokensUsed = c_tokens_used resp, i_creditsUsed = chat_credit_cost cfg,
          i_timestamp = now\<rparr>]
      \<and> credit_transactions (snd (chat_call cfg db req cur out now)) = credit_transactions db
      \<and> c_credits_remaining resp
          = balance_or_zero db (cr_user_id req) ''chat'' - chat_credit_cost cfg
      \<and> stored_balance (snd (chat_call cfg db req cur out now)) (cr_user_id req) ''chat''
          = Some (c_credits_remaining resp))
   \<and> (fst (chat_call cfg db req cur out now) = Inl e \<longrightarrow>
        snd (chat_call cfg db req cur out now) = db)"
proof (intro conjI impI)
  assume "fst (chat_call cfg db req cur out now) = Inl e"
  then have "chat_call cfg db req cur out now = (Inl e, snd (chat_call cfg db req cur out now))"
    by (simp add: prod_eq_iff)
  then show "snd (chat_call cfg db req cur out now) = db" by (rule chat_call_error_unchanged)
next
  assume "fst (chat_call cfg db req cur out now) = Inr resp"
  then have c: "chat_call cfg db req cur out now = (Inr resp, snd (chat_call cfg db req cur out now))"
    by (simp add: prod_eq_iff)
  note s = chat_call_success [OF c]
  show "ai_interactions (snd (chat_call cfg db req cur out now)) = ai_interactions db @
        [\<lparr>i_userId = cr_user_id req, i_agentId = cr_agent_id req, i_type = ''chat'',
          i_tokensUsed = c_tokens_used resp, i_creditsUsed = chat_credit_cost cfg,
          i_timestamp = now\<rparr>]" by (rule s(1))
  show "credit_transactions (snd (chat_call cfg db req cur out now)) = credit_transactions db"
    by (rule s(2))
  show "c_credits_remaining resp
          = balance_or_zero db (cr_user_id req) ''chat'' - chat_credit_cost cfg" by (rule s(3))
  show "stored_balance (snd (chat_call cfg db req cur out now)) (cr_user_id req) ''chat''
          = Some (c_credits_remaining resp)" by (rule s(4))
qed

theorem chat_call_usage_log_witness:
  "fst (chat_call default_settings example_db
        \<lparr>cr_user_id = ''u1'', cr_agent_id = ''agent_a'', cr_message = ''hello'',
         cr_room_id = None, cr_server_id = None\<rparr> ''u1'' (Answered ''hi'' 1) 7)
     = Inr \<lparr>c_message = ''hi'', c_agent_id = ''agent_a'', c_tokens_used = 1,
            c_credits_remaining = 4\<rparr>
   \<and> ai_interactions (snd (chat_call default_settings example_db
        \<lparr>cr_user_id = ''u1'', cr_agent_id = ''agent_a'', cr_message = ''hello'',
         cr_room_id = None, cr_server_id = None\<rparr> ''u1'' (Answered ''hi'' 1) 7))
     = [\<lparr>i_userId = ''u1'', i_agentId = ''agent_a'', i_type = ''chat'', i_tokensUsed = 1,
         i_creditsUsed = 1, i_timestamp = 7\<rparr>]
   \<and> stored_balance (snd (chat_call default_settings example_db
        \<lparr>cr_user_id = ''u1'', cr_agent_id = ''agent_a'', cr_message = ''hello'',
         cr_room_id = None, cr_server_id = None\<rparr> ''u1'' (Answered ''hi'' 1) 7)) ''u1'' ''chat''
     = Some 4
   \<and> fst (chat_call default_settings example_db
        \<lparr>cr_user_id = ''u2'', cr_agent_id = ''agent_a'', cr_message = ''hello'',
         cr_room_id = None, cr_server_id = None\<rparr> ''u2'' (Answered ''hi'' 1) 7)
     = Inl (HTTPException 402 (InsufficientChatCredits 1 0))
   \<and> snd (chat_call default_settings example_db
        \<lparr>cr_user_id = ''u2'', cr_agent_id = ''agent_a'', cr_message = ''hello'',
         cr_room_id = None, cr_server_id = None\<rparr> ''u2'' (Answered ''hi'' 1) 7)
     = example_db"
proof -
  let ?r1 = "\<lparr>cr_user_id = ''u1'', cr_agent_id = ''agent_a'', cr_message = ''hello'',
         cr_room_id = None, cr_server_id = None\<rparr>"
  let ?r2 = "\<lparr>cr_user_id = ''u2'', cr_agent_id = ''agent_a'', cr_message = ''hello'',
         cr_room_id = None, cr_server_id = None\<rparr>"
  have a: "fst (chat_call default_settings example_db ?r1 ''u1'' (Answered ''hi'' 1) 7)
     = Inr \<lparr>c_message = ''hi'', c_agent_id = ''agent_a'', c_tokens_used = 1,
            c_credits_remaining = 4\<rparr>"
    by (simp add: chat_call_def get_user_credits_def deduct_credits_def credit_field_def
        check_user_agent_access_def get_agent_personality_def log_ai_interaction_def
        response_text_def metadata_tokens_used_def
        example_db_def account_doc_def empty_doc_def default_settings_def Let_def)
  have b: "fst (chat_call default_settings example_db ?r2 ''u2'' (Answered ''hi'' 1) 7)
     = Inl (HTTPException 402 (InsufficientChatCredits 1 0))"
    by (simp add: chat_call_def get_user_credits_def
        example_db_def account_doc_def empty_doc_def default_settings_def Let_def)
  have c: "ai_interactions example_db = []" "chat_credit_cost default_settings = 1"
    by (simp_all add: example_db_def default_settings_def)
  from chat_call_usage_log [of default_settings example_db ?r1 "''u1''" "Answered ''hi'' 1" 7
         "\<lparr>c_message = ''hi'', c_agent_id = ''agent_a'', c_tokens_used = 1,
            c_credits_remaining = 4\<rparr>"]
       chat_call_usage_log [of default_settings example_db ?r2 "''u2''" "Answered ''hi'' 1" 7 _
         "HTTPException 402 (InsufficientChatCredits 1 0)"]
       a b c
  show ?thesis by simp
qed

text \<open>
  The handler cannot tell a failed model call from an answer: \<^verbatim>\<open>LangGraphAgent.call\<close>
  returns its apology instead of raising, and the call is charged like any other.
\<close>

lemma chat_call_apology_charged:
  "fst (chat_call default_settings example_db
        \<lparr>cr_user_id = ''u1'', cr_agent_id = ''agent_a'', cr_message = ''hello'',
         cr_room_id = None, cr_server_id = None\<rparr> ''u1'' (Apologised ''timeout'') 7)
     = Inr \<lparr>c_message = ''I apologize, but I encountered an error processing your request.'',
            c_agent_id = ''agent_a'', c_tokens_used = 0, c_credits_remaining = 4\<rparr>"
  by (simp add: chat_call_def get_user_credits_def deduct_credits_def credit_field_def
        check_user_agent_access_def get_agent_personality_def log_ai_interaction_def
        response_text_def metadata_tokens_used_def
        example_db_def account_doc_def empty_doc_def default_settings_def Let_def)

subsection \<open>The order of the steps\<close>

lemma chat_call_traced_mismatch:
  "cr_user_id req \<noteq> cur \<Longrightarrow>
     chat_call_traced cfg db req cur agent now = (Inl (HTTPException 403 UserIdMismatch), db, [])"
  by (simp add: chat_call_traced_def)

lemma chat_call_traced_user_not_found:
  "cr_user_id req = cur \<Longrightarrow> get_user_credits cfg db cur now = None \<Longrightarrow>
     chat_call_traced cfg db req cur agent now =
       (Inl (HTTPException 404 UserNotFound), db, [GetUserCredits cur])"
  by (simp add: chat_call_traced_def)

lemma chat_call_traced_insufficient:
  "cr_user_id req = cur \<Longrightarrow> get_user_credits cfg db cur now = Some uc \<Longrightarrow>
   chat_credits uc < chat_credit_cost cfg \<Longrightarrow>
     chat_call_traced cfg db req cur agent now =
       (Inl (HTTPException 402 (InsufficientChatCredits (chat_credit_cost cfg) (chat_credits uc))),
        db, [GetUserCredits cur])"
  by (simp add: chat_call_traced_def)

lemma chat_call_traced_denied:
  "cr_user_id req = cur \<Longrightarrow> get_user_credits cfg db cur now = Some uc \<Longrightarrow>
   \<not> chat_credits uc < chat_credit_cost cfg \<Longrightarrow>
   \<not> check_user_agent_access db cur (cr_agent_id req) now \<Longrightarrow>
     chat_call_traced cfg db req cur agent now =
       (Inl (HTTPException 403 AccessDenied), db,
        [GetUserCredits cur, CheckUserAgentAccess cur (cr_agent_id req)])"
  by (simp add: chat_call_traced_def)

lemma chat_call_traced_metered:
  assumes "cr_user_id req = cur" "get_user_credits cfg db cur now = Some uc"
    "\<not> chat_credits uc < chat_credit_cost cfg"
    "check_user_agent_access db cur (cr_agent_id req) now"
    "get_agent_personality db (cr_agent_id req) now = Some p"
  shows "chat_call_traced cfg db req cur agent now =
     (if fst (fst (deduct_credits db cur ''chat'' (chat_credit_cost cfg) now))
      then (Inr \<lparr>c_message = response_text (agent p (cr_message req)),
                 c_agent_id = cr_agent_id req,
                 c_tokens_used = metadata_tokens_used (agent p (cr_message req)),
                 c_credits_remaining =
                   snd (fst (deduct_credits db cur ''chat'' (chat_credit_cost cfg) now))\<rparr>,
            log_ai_interaction (snd (deduct_credits db cur ''chat'' (chat_credit_cost cfg) now))
              cur (cr_agent_id req) ''chat'' (metadata_tokens_used (agent p (cr_message req)))
              (chat_credit_cost cfg) now,
            [GetUserCredits cur, CheckUserAgentAccess cur (cr_agent_id req),
             GetAgentPersonality (cr_agent_id req), AgentCall (cr_agent_id req) (cr_message req),
             DeductCredits cur ''chat'' (chat_credit_cost cfg),
             LogAiInteraction cur (cr_agent_id req)])
      else (Inl (HTTPException 402 FailedToDeductCredits), db,
            [GetUserCredits cur, CheckUserAgentAccess cur (cr_agent_id req),
             GetAgentPersonality (cr_agent_id req), AgentCall (cr_agent_id req) (cr_message req),
             DeductCredits cur ''chat'' (chat_credit_cost cfg)]))"
proof -
  obtain ok r db' where d: "deduct_credits db cur ''chat'' (chat_credit_cost cfg) now = ((ok, r), db')"
    by (metis surj_pair)
  show ?thesis
  proof (cases ok)
    case True
    with assms d show ?thesis by (simp add: chat_call_traced_def Let_def)
  next
    case False
    with d have "db' = db" by (auto dest: deduct_credits_failure)
    with False assms d show ?thesis by (simp add: chat_call_traced_def Let_def)
  qed
qed

text \<open>The traced handler returns what \<open>chat_call\<close> returns.\<close>

lemma chat_call_traced_result:
  "(fst (chat_call_traced cfg db req cur agent now),
    fst (snd (chat_call_traced cfg db req cur agent now)))
   = chat_call cfg db req cur
       (case get_agent_personality db (cr_agent_id req) now of
          None \<Rightarrow> Apologised [] | Some p \<Rightarrow> agent p (cr_message req)) now"
proof (cases "cr_user_id req = cur")
  case False
  then show ?thesis by (simp add: chat_call_traced_mismatch chat_call_mismatch)
next
  case eq: True
  show ?thesis
  proof (cases "get_user_credits cfg db cur now")
    case None
    with eq show ?thesis by (simp add: chat_call_traced_user_not_found chat_call_user_not_found)
  next
    case (Some uc)
    show ?thesis
    proof (cases "chat_credits uc < chat_credit_cost cfg")
      case True
      with eq Some show ?thesis by (simp add: chat_call_traced_insufficient chat_call_insufficient)
    next
      case enough: False
      show ?thesis
      proof (cases "check_user_agent_access db cur (cr_agent_id req) now")
        case False
        with eq Some enough show ?thesis by (simp add: chat_call_traced_denied chat_call_denied)
      next
        case True
        then obtain p where p: "get_agent_personality db (cr_agent_id req) now = Some p"
          by (auto dest: access_agent_found)
        show ?thesis
          by (simp add: chat_call_traced_metered [OF eq Some enough True p]
                chat_call_metered [OF eq Some enough True] p)
      qed
    qed
  qed
qed

text \<open>
  C5, as stated: the steps of a chat request run in the order identity match, Access
  Policy check, Rate Limiter check, balance pre-check, provider invocation, conditional
  deduct; in particular the access policy is evaluated before the balance is read. It
  fails twice. \<open>u2\<close> has no chat credits and no access to \<open>agent_p\<close>: the request ends with
  the insufficient-credits error 402 after the credits were read, and the access policy
  is never asked. And a request whose user id does not match the caller, refused by the
  limiter, ends with 429: the limiter is asked before the identity is compared.
\<close>

theorem chat_call_endpoint_order_counterexample:
  "\<not> check_user_agent_access example_db ''u2'' ''agent_p'' 7
   \<and> chat_call_endpoint default_settings example_db (example_request ''u2'' ''agent_p'') ''u2''
        True example_agent 7
      = (Inl (HTTPException 402 (InsufficientChatCredits 1 0)), example_db,
         [LimiterHit, GetUserCredits ''u2''])
   \<and> chat_call_endpoint default_settings example_db (example_request ''u1'' ''agent_a'') ''u2''
        False example_agent 7
      = (Inl (HTTPException 429 RateLimitExceeded), example_db, [LimiterHit])"
  by (simp add: chat_call_endpoint_def chat_call_traced_def get_user_credits_def
        check_user_agent_access_def get_agent_personality_def example_request_def
        example_db_def account_doc_def empty_doc_def default_settings_def Let_def)

text \<open>
  C5, amended: the steps of a chat request run in the order Rate Limiter check, identity
  match, balance pre-check, Access Policy check, agent lookup and provider invocation,
  conditional deduct, usage log. The calls a request makes are always an initial part of
  that sequence, and the request stops at the first step that fails: a refusal by the
  limiter is answered 429 and an identity mismatch 403 before anything is read; an
  unknown user 404 and a balance below the chat cost 402 once the credits are read and
  before the access policy is asked; an access denial 403 before the agent is looked up
  or invoked. Each of these leaves the database unchanged and the provider uninvoked.
  The provider is invoked only when every check has passed, and the deduction is
  attempted only after it; a failed deduction is answered 402 with the database
  unchanged, a successful one is followed by the usage log and the response.
\<close>

theorem chat_call_endpoint_sequence:
  "take (length (snd (snd (chat_call_endpoint cfg db req cur limiter_ok agent now))))
       (chat_call_sequence cfg req)
     = snd (snd (chat_call_endpoint cfg db req cur limiter_ok agent now))
   \<and> (\<not> limiter_ok \<longrightarrow>
        chat_call_endpoint cfg db req cur limiter_ok agent now =
          (Inl (HTTPException 429 RateLimitExceeded), db, take 1 (chat_call_sequence cfg req)))
   \<and> (limiter_ok \<and> cr_user_id req \<noteq> cur \<longrightarrow>
        chat_call_endpoint cfg db req cur limiter_ok agent now =
          (Inl (HTTPException 403 UserIdMismatch), db, take 1 (chat_call_sequence cfg req)))
   \<and> (limiter_ok \<and> cr_user_id req = cur \<and> get_user_credits cfg db cur now = None \<longrightarrow>
        chat_call_endpoint cfg db req cur limiter_ok agent now =
          (Inl (HTTPException 404 UserNotFound), db, take 2 (chat_call_sequence cfg req)))
   \<and> (limiter_ok \<and> cr_user_id req = cur \<and> get_user_credits cfg db cur now = Some uc
        \<and> chat_credits uc < chat_credit_cost cfg \<longrightarrow>
        chat_call_endpoint cfg db req cur limiter_ok agent now =
          (Inl (HTTPException 402
             (InsufficientChatCredits (chat_credit_cost cfg) (chat_credits uc))), db,
           take 2 (chat_call_sequence cfg req)))
   \<and> (limiter_ok \<and> cr_user_id req = cur \<and> get_user_credits cfg db cur now = Some uc
        \<and> chat_credit_cost cfg \<le> chat_credits uc
        \<and> \<not> check_user_agent_access db cur (cr_agent_id req) now \<longrightarrow>
        chat_call_endpoint cfg db req cur limiter_ok agent now =
          (Inl (HTTPException 403 AccessDenied), db, take 3 (chat_call_sequence cfg req)))
   \<and> (limiter_ok \<and> cr_user_id req = cur \<and> get_user_credits cfg db cur now = Some uc
        \<and> chat_credit_cost cfg \<le> chat_credits uc
        \<and> check_user_agent_access db cur (cr_agent_id req) now
        \<and> \<not> fst (fst (deduct_credits db cur ''chat'' (chat_credit_cost cfg) now)) \<longrightarrow>
        chat_call_endpoint cfg db req cur limiter_ok agent now =
          (Inl (HTTPException 402 FailedToDeductCredits), db,
           take 6 (chat_call_sequence cfg req)))
   \<and> (limiter_ok \<and> cr_user_id req = cur \<and> get_user_credits cfg db cur now = Some uc
        \<and> chat_credit_cost cfg \<le> chat_credits uc
        \<and> check_user_agent_access db cur (cr_agent_id req) now
        \<and> get_agent_personality db (cr_agent_id req) now = Some p
        \<and> fst (fst (deduct_credits db cur ''chat'' (chat_credit_cost cfg) now)) \<longrightarrow>
        chat_call_endpoint cfg db req cur limiter_ok agent now =
          (Inr \<lparr>c_message = response_text (agent p (cr_message req)),
                c_agent_id = cr_agent_id req,
                c_tokens_used = metadata_tokens_used (agent p (cr_message req)),
                c_credits_remaining =
                  snd (fst (deduct_credits db cur ''chat'' (chat_credit_cost cfg) now))\<rparr>,
           log_ai_interaction (snd (deduct_credits db cur ''chat'' (chat_credit_cost cfg) now))
             cur (cr_agent_id req) ''chat'' (metadata_tokens_used (agent p (cr_message req)))
             (chat_credit_cost cfg) now,
           chat_call_sequence cfg req))"
  (is "?prefix \<and> ?r1 \<and> ?r2 \<and> ?r3 \<and> ?r4 \<and> ?r5 \<and> ?r6 \<and> ?r7")
proof -
  let ?E = "chat_call_endpoint cfg db req cur limiter_ok agent now"
  let ?seq = "chat_call_sequence cfg req"
  have r1: ?r1 by (simp add: chat_call_endpoint_def chat_call_sequence_def)
  have r2: ?r2
    by (simp add: chat_call_endpoint_def chat_call_traced_mismatch chat_call_sequence_def)
  have r3: ?r3
    by (auto simp: chat_call_endpoint_def chat_call_traced_user_not_found chat_call_sequence_def)
  have r4: ?r4
    by (auto simp: chat_call_endpoint_def chat_call_traced_insufficient chat_call_sequence_def)
  have r5: ?r5
    by (auto simp: chat_call_endpoint_def chat_call_traced_denied chat_call_sequence_def)
  have r67: "?E = (if fst (fst (deduct_credits db cur ''chat'' (chat_credit_cost cfg) now))
      then (Inr \<lparr>c_message = response_text (agent q (cr_message req)),
                c_agent_id = cr_agent_id req,
                c_tokens_used = metadata_tokens_used (agent q (cr_message req)),
                c_credits_remaining =
                  snd (fst (deduct_credits db cur ''chat'' (chat_credit_cost cfg) now))\<rparr>,
           log_ai_interaction (snd (deduct_credits db cur ''chat'' (chat_credit_cost cfg) now))
             cur (cr_agent_id req) ''chat'' (metadata_tokens_used (agent q (cr_message req)))
             (chat_credit_cost cfg) now, ?seq)
      else (Inl (HTTPException 402 FailedToDeductCredits), db, take 6 ?seq))"
    if "limiter_ok" "cr_user_id req = cur" "get_user_credits cfg db cur now = Some uc"
       "chat_credit_cost cfg \<le> chat_credits uc"
       "check_user_agent_access db cur (cr_agent_id req) now"
       "get_agent_personality db (cr_agent_id req) now = Some q" for q
  proof -
    from that(4) have e: "\<not> chat_credits uc < chat_credit_cost cfg" by simp
    show ?thesis
      using that(1,2)
      by (simp add: chat_call_endpoint_def chat_call_sequence_def
            chat_call_traced_metered [OF that(2) that(3) e that(5) that(6)])
  qed
  have r6: ?r6
  proof (intro impI, elim conjE)
    assume a: "limiter_ok" "cr_user_id req = cur" "get_user_credits cfg db cur now = Some uc"
       "chat_credit_cost cfg \<le> chat_credits uc"
       "check_user_agent_access db cur (cr_agent_id req) now"
       "\<not> fst (fst (deduct_credits db cur ''chat'' (chat_credit_cost cfg) now))"
    from a(5) obtain q where "get_agent_personality db (cr_agent_id req) now = Some q"
      by (auto dest: access_agent_found)
    from r67 [OF a(1-5) this] a(6)
    show "?E = (Inl (HTTPException 402 FailedToDeductCredits), db, take 6 ?seq)" by simp
  qed
  have r7: ?r7
  proof (intro impI, elim conjE)
    assume a: "limiter_ok" "cr_user_id req = cur" "get_user_credits cfg db cur now = Some uc"
       "chat_credit_cost cfg \<le> chat_credits uc"
       "check_user_agent_access db cur (cr_agent_id req) now"
       "get_agent_personality db (cr_agent_id req) now = Some p"
       "fst (fst (deduct_credits db cur ''chat'' (chat_credit_cost cfg) now))"
    from r67 [OF a(1-6)] a(7)
    show "?E = (Inr \<lparr>c_message = response_text (agent p (cr_message req)),
                c_agent_id = cr_agent_id req,
                c_tokens_used = metadata_tokens_used (agent p (cr_message req)),
                c_credits_remaining =
                  snd (fst (deduct_credits db cur ''chat'' (chat_credit_cost cfg) now))\<rparr>,
           log_ai_interaction (snd (deduct_credits db cur ''chat'' (chat_credit_cost cfg) now))
             cur (cr_agent_id req) ''chat'' (metadata_tokens_used (agent p (cr_message req)))
             (chat_credit_cost cfg) now, ?seq)" by simp
  qed
  have len: "length ?seq = 7" by (simp add: chat_call_sequence_def)
  have pre: "take (length (snd (snd ?E))) ?seq = snd (snd ?E)"
    if "snd (snd ?E) = take n ?seq" "n \<le> 7" for n
    using that len by simp
  have "\<exists>n\<le>7. snd (snd ?E) = take n ?seq"
  proof (cases limiter_ok)
    case False
    with r1 have "snd (snd ?E) = take 1 ?seq" by simp
    then show ?thesis by (intro exI [of _ 1]) simp
  next
    case ok: True
    show ?thesis
    proof (cases "cr_user_id req = cur")
      case False
      with ok r2 have "snd (snd ?E) = take 1 ?seq" by simp
      then show ?thesis by (intro exI [of _ 1]) simp
    next
      case eq: True
      show ?thesis
      proof (cases "get_user_credits cfg db cur now")
        case None
        have "snd (snd ?E) = take 2 ?seq"
          using ok eq None
          by (simp add: chat_call_endpoint_def chat_call_traced_user_not_found
                chat_call_sequence_def)
        then show ?thesis by (intro exI [of _ 2]) simp
      next
        case (Some uc')
        show ?thesis
        proof (cases "chat_credits uc' < chat_credit_cost cfg")
          case True
          have "snd (snd ?E) = take 2 ?seq"
            using ok eq Some True
            by (simp add: chat_call_endpoint_def chat_call_traced_insufficient
                  chat_call_sequence_def)
          then show ?thesis by (intro exI [of _ 2]) simp
        next
          case enough: False
          show ?thesis
          proof (cases "check_user_agent_access db cur (cr_agent_id req) now")
            case False
            have "snd (snd ?E) = take 3 ?seq"
              using ok eq Some enough False
              by (simp add: chat_call_endpoint_def chat_call_traced_denied
                    chat_call_sequence_def)
            then show ?thesis by (intro exI [of _ 3]) simp
          next
            case True
            then obtain q where q: "get_agent_personality db (cr_agent_id req) now = Some q"
              by (auto dest: access_agent_found)
            have "snd (snd ?E) =
                (if fst (fst (deduct_credits db cur ''chat'' (chat_credit_cost cfg) now))
                 then take 7 ?seq else take 6 ?seq)"
              using ok eq
              by (simp add: chat_call_endpoint_def chat_call_sequence_def
                    chat_call_traced_metered [OF eq Some enough True q])
            then show ?thesis
              by (cases "fst (fst (deduct_credits db cur ''chat'' (chat_credit_cost cfg) now))")
                 (auto intro: exI [of _ 7] exI [of _ 6])
          qed
        qed
      qed
    qed
  qed
  then have ?prefix using pre by blast
  with r1 r2 r3 r4 r5 r6 r7 show ?thesis by blast
qed

theorem chat_call_endpoint_sequence_witness:
  "chat_call_endpoint default_settings example_db (example_request ''u1'' ''agent_a'') ''u2''
        False example_agent 7
      = (Inl (HTTPException 429 RateLimitExceeded), example_db, [LimiterHit])
   \<and> chat_call_endpoint default_settings example_db (example_request ''u1'' ''agent_a'') ''u2''
        True example_agent 7
      = (Inl (HTTPException 403 UserIdMismatch), example_db, [LimiterHit])
   \<and> chat_call_endpoint default_settings example_db (example_request ''u7'' ''agent_a'') ''u7''
        True example_agent 7
      = (Inl (HTTPException 404 UserNotFound), example_db, [LimiterHit, GetUserCredits ''u7''])
   \<and> chat_call_endpoint default_settings example_db (example_request ''u2'' ''agent_p'') ''u2''
        True example_agent 7
      = (Inl (HTTPException 402 (InsufficientChatCredits 1 0)), example_db,
         [LimiterHit, GetUserCredits ''u2''])
   \<and> chat_call_endpoint default_settings example_db (example_request ''u1'' ''agent_p'') ''u1''
        True example_agent 7
      = (Inl (HTTPException 403 AccessDenied), example_db,
         [LimiterHit, GetUserCredits ''u1'', CheckUserAgentAccess ''u1'' ''agent_p''])
   \<and> chat_call_endpoint default_settings example_db (example_request ''u3'' ''agent_a'') ''u3''
        True example_agent 7
      = (Inl (HTTPException 402 FailedToDeductCredits), example_db,
         [LimiterHit, GetUserCredits ''u3'', CheckUserAgentAccess ''u3'' ''agent_a'',
          GetAgentPersonality ''agent_a'', AgentCall ''agent_a'' ''hello'',
          DeductCredits ''u3'' ''chat'' 1])
   \<and> fst (chat_call_endpoint default_settings example_db (example_request ''u1'' ''agent_a'')
        ''u1'' True example_agent 7)
      = Inr \<lparr>c_message = ''hi there'', c_agent_id = ''agent_a'', c_tokens_used = 2,
             c_credits_remaining = 4\<rparr>
   \<and> snd (snd (chat_call_endpoint default_settings example_db (example_request ''u1'' ''agent_a'')
        ''u1'' True example_agent 7))
      = [LimiterHit, GetUserCredits ''u1'', CheckUserAgentAccess ''u1'' ''agent_a'',
         GetAgentPersonality ''agent_a'', AgentCall ''agent_a'' ''hello'',
         DeductCredits ''u1'' ''chat'' 1, LogAiInteraction ''u1'' ''agent_a'']"
proof -
  have g1: "get_user_credits default_settings example_db ''u1'' 7
      = Some \<lparr>user_id = ''u1'', chat_credits = 5, gen_ai_credits = 3, last_reset = 0,
              subscription_tier = ''free''\<rparr>"
    and g2: "get_user_credits default_settings example_db ''u2'' 7
      = Some \<lparr>user_id = ''u2'', chat_credits = 0, gen_ai_credits = 1, last_reset = 0,
              subscription_tier = ''pro''\<rparr>"
    and g3: "get_user_credits default_settings example_db ''u3'' 7
      = Some \<lparr>user_id = ''u3'', chat_credits = 25, gen_ai_credits = 25, last_reset = 7,
              subscription_tier = ''free''\<rparr>"
    and g7: "get_user_credits default_settings example_db ''u7'' 7 = None"
    by (simp_all add: get_user_credits_def example_db_def account_doc_def empty_doc_def
          default_settings_def)
  have a1: "\<not> check_user_agent_access example_db ''u1'' ''agent_p'' 7"
    and a2: "check_user_agent_access example_db ''u1'' ''agent_a'' 7"
    and a3: "check_user_agent_access example_db ''u3'' ''agent_a'' 7"
    by (simp_all add: check_user_agent_access_def get_agent_personality_def example_db_def
          account_doc_def empty_doc_def)
  have p: "get_agent_personality example_db ''agent_a'' 7
      = Some \<lparr>agent_id = ''agent_a'', name = ''Unknown Agent'', personality_rules = [],
              gen_rules = [], is_public = True, owner_id = [], created_at = 7,
              updated_at = 7\<rparr>"
    by (simp add: get_agent_personality_def example_db_def empty_doc_def)
  have d1: "fst (deduct_credits example_db ''u1'' ''chat'' 1 7) = (True, 4)"
    and d3: "fst (deduct_credits example_db ''u3'' ''chat'' 1 7) = (False, 0)"
    by (simp_all add: deduct_credits_def credit_field_def example_db_def account_doc_def
          empty_doc_def Let_def)
  have c: "chat_credit_cost default_settings = 1" by (simp add: default_settings_def)
  note t = chat_call_endpoint_sequence [where cfg = default_settings and db = example_db
             and agent = example_agent and now = 7]
  from t [of "example_request ''u1'' ''agent_a''" "''u2''" False]
       t [of "example_request ''u1'' ''agent_a''" "''u2''" True]
       t [of "example_request ''u7'' ''agent_a''" "''u7''" True]
       t [of "example_request ''u2'' ''agent_p''" "''u2''" True
            "\<lparr>user_id = ''u2'', chat_credits = 0, gen_ai_credits = 1, last_reset = 0,
              subscription_tier = ''pro''\<rparr>"]
       t [of "example_request ''u1'' ''agent_p''" "''u1''" True
            "\<lparr>user_id = ''u1'', chat_credits = 5, gen_ai_credits = 3, last_reset = 0,
              subscription_tier = ''free''\<rparr>"]
       t [of "example_request ''u3'' ''agent_a''" "''u3''" True
            "\<lparr>user_id = ''u3'', chat_credits = 25, gen_ai_credits = 25, last_reset = 7,
              subscription_tier = ''free''\<rparr>"]
       t [of "example_request ''u1'' ''agent_a''" "''u1''" True
            "\<lparr>user_id = ''u1'', chat_credits = 5, gen_ai_credits = 3, last_reset = 0,
              subscription_tier = ''free''\<rparr>"
            "\<lparr>agent_id = ''agent_a'', name = ''Unknown Agent'', personality_rules = [],
              gen_rules = [], is_public = True, owner_id = [], created_at = 7,
              updated_at = 7\<rparr>"]
       g1 g2 g3 g7 a1 a2 a3 p d1 d3 c
  show ?thesis
    by (simp add: chat_call_sequence_def example_request_def example_agent_def
          response_text_def metadata_tokens_used_def)
qed

section \<open>Generation cost\<close>

text \<open>
  C7. The credit cost of a generation request is \<^verbatim>\<open>image_generation_cost\<close> for the media
  types \<^verbatim>\<open>IMAGE\<close> and \<^verbatim>\<open>ALBUM_ART\<close> and \<^verbatim>\<open>music_generation_cost\<close> for \<^verbatim>\<open>MUSIC\<close>,
  whatever the requested duration; and the duration \<^verbatim>\<open>generate_music\<close> sends to the
  provider is the requested one cut down to at most 180 seconds.
\<close>

theorem generation_cost_and_duration_clamp:
  "get_generation_cost cfg IMAGE duration = image_generation_cost cfg
   \<and> get_generation_cost cfg ALBUM_ART duration = image_generation_cost cfg
   \<and> get_generation_cost cfg MUSIC duration = music_generation_cost cfg
   \<and> get_generation_cost cfg mt duration = get_generation_cost cfg mt duration'
   \<and> data_duration (generate_music_data prompt d style) = min d 180
   \<and> data_duration (music_call_data request) \<le> 180"
  by (cases mt) (simp_all add: generate_music_data_def music_call_data_def)

section \<open>Rate limiter\<close>

text \<open>
  C8. A rate-limit check at time \<open>t\<close> drops from the front of the user's queue the
  entries older than 60 seconds (for a queue in time order these are all the entries
  older than 60 seconds). When fewer than \<open>limit\<close> entries remain it appends \<open>t\<close> and
  succeeds with \<open>remaining = limit - count - 1\<close>; otherwise it fails with
  \<open>remaining = 0\<close> and appends nothing. Consequently, for a user with an empty queue,
  \<open>limit\<close> requests within a window of 60 seconds all succeed, one more request in that
  window fails and leaves the queues as they are, and a request made more than 60
  seconds after the first one succeeds again.
\<close>

theorem check_rate_limit_sliding_window:
  "check_rate_limit cfg ur uid t =
     (let q = dropWhile (\<lambda>x. x < t - 60) (ur uid)
      in if int (length q) < rate_limit_per_minute cfg
         then ((True, rate_limit_per_minute cfg - int (length q) - 1), ur(uid := q @ [t]))
         else ((False, 0), ur(uid := q)))
   \<and> (sorted (ur uid) \<longrightarrow>
        dropWhile (\<lambda>x. x < t - 60) (ur uid) = filter (\<lambda>x. t - 60 \<le> x) (ur uid))
   \<and> (ur uid = [] \<and> 1 \<le> rate_limit_per_minute cfg
        \<and> int (length ts) = rate_limit_per_minute cfg
        \<and> (\<forall>x\<in>set ts \<union> {t_next}. T \<le> x \<and> x \<le> T + 60)
        \<and> hd ts + 60 < t_later \<longrightarrow>
        map fst (fst (check_all cfg ur uid ts)) = replicate (length ts) True
        \<and> check_rate_limit cfg (snd (check_all cfg ur uid ts)) uid t_next
            = ((False, 0), snd (check_all cfg ur uid ts))
        \<and> fst (fst (check_rate_limit cfg (snd (check_all cfg ur uid ts)) uid t_later)))"
proof (intro conjI impI)
  show "check_rate_limit cfg ur uid t =
     (let q = dropWhile (\<lambda>x. x < t - 60) (ur uid)
      in if int (length q) < rate_limit_per_minute cfg
         then ((True, rate_limit_per_minute cfg - int (length q) - 1), ur(uid := q @ [t]))
         else ((False, 0), ur(uid := q)))"
    by (simp add: check_rate_limit_step clean_old_dropWhile)
next
  assume "sorted (ur uid)"
  then have "clean_old (t - 60) (ur uid) = filter (\<lambda>x. t - 60 \<le> x) (ur uid)"
    by (rule clean_old_sorted)
  then show "dropWhile (\<lambda>x. x < t - 60) (ur uid) = filter (\<lambda>x. t - 60 \<le> x) (ur uid)"
    by (simp add: clean_old_dropWhile)
next
  assume h: "ur uid = [] \<and> 1 \<le> rate_limit_per_minute cfg
        \<and> int (length ts) = rate_limit_per_minute cfg
        \<and> (\<forall>x\<in>set ts \<union> {t_next}. T \<le> x \<and> x \<le> T + 60)
        \<and> hd ts + 60 < t_later"
  then have e: "ur uid = []"
      and l: "int (length ts) = rate_limit_per_minute cfg"
      and p: "1 \<le> rate_limit_per_minute cfg"
      and w: "\<forall>x\<in>set ts \<union> {t_next}. T \<le> x \<and> x \<le> T + 60"
      and a: "hd ts + 60 < t_later" by simp_all
  from rate_limit_window [where ur = ur and uid = uid, OF e l p w a]
  show "map fst (fst (check_all cfg ur uid ts)) = replicate (length ts) True"
    and "check_rate_limit cfg (snd (check_all cfg ur uid ts)) uid t_next
            = ((False, 0), snd (check_all cfg ur uid ts))"
    and "fst (fst (check_rate_limit cfg (snd (check_all cfg ur uid ts)) uid t_later))"
    by simp_all
qed

theorem check_rate_limit_sliding_window_witness:
  "sorted [0::real, 10, 20, 30, 40]
   \<and> (1::int) \<le> rate_limit_per_minute default_settings
   \<and> int (length [0::real, 10, 20, 30, 40]) = rate_limit_per_minute default_settings
   \<and> hd [0::real, 10, 20, 30, 40] + 60 < 61
   \<and> map fst (fst (check_all default_settings (\<lambda>u. []) ''u1'' [0, 10, 20, 30, 40]))
       = [True, True, True, True, True]
   \<and> fst (check_rate_limit default_settings
        (snd (check_all default_settings (\<lambda>u. []) ''u1'' [0, 10, 20, 30, 40])) ''u1'' 50)
       = (False, 0)
   \<and> fst (fst (check_rate_limit default_settings
        (snd (check_all default_settings (\<lambda>u. []) ''u1'' [0, 10, 20, 30, 40])) ''u1'' 61))
   \<and> dropWhile (\<lambda>x. x < 70 - 60) [0::real, 10, 20, 30, 40]
       = filter (\<lambda>x. 70 - 60 \<le> x) [0, 10, 20, 30, 40]"
proof -
  have s: "sorted [0::real, 10, 20, 30, 40]" by simp
  have h: "(\<lambda>u::string. []::real list) ''u1'' = [] \<and> 1 \<le> rate_limit_per_minute default_settings
        \<and> int (length [0::real, 10, 20, 30, 40]) = rate_limit_per_minute default_settings
        \<and> (\<forall>x\<in>set [0::real, 10, 20, 30, 40] \<union> {50}. 0 \<le> x \<and> x \<le> 0 + 60)
        \<and> hd [0::real, 10, 20, 30, 40] + 60 < 61"
    by (simp add: default_settings_def)
  from check_rate_limit_sliding_window
         [of default_settings "\<lambda>u. []" "''u1''" 61 "[0, 10, 20, 30, 40]" 50 0 61]
       check_rate_limit_sliding_window
         [of default_settings "(\<lambda>u. [])(''u1'' := [0, 10, 20, 30, 40])" "''u1''" 70]
       h s
  show ?thesis by (simp add: default_settings_def)
qed

section \<open>Monthly reset\<close>

text \<open>
  C9. For a user whose credits \<^verbatim>\<open>get_user_credits\<close> returns, \<^verbatim>\<open>reset_monthly_credits\<close>
  returns \<open>True\<close> exactly when at least 30 days have passed since \<open>last_reset\<close>. It then
  stores the allotment of the user's tier in both balances and the current time in
  \<^verbatim>\<open>lastCreditReset\<close>, and a further call less than 30 days later returns \<open>False\<close> and
  changes nothing. Before the 30 days have passed the call returns \<open>False\<close> and changes
  nothing. The allotments are 100 and 50 for premium, 500 and 200 for pro, and the two
  configured free-tier values otherwise; with the default settings the three tiers get
  three different allotments.
\<close>

theorem reset_monthly_credits_thirty_days:
  assumes g: "get_user_credits cfg db uid now = Some uc"
  shows "fst (reset_monthly_credits cfg db uid now) = (thirty_days \<le> now - last_reset uc)
       \<and> (thirty_days \<le> now - last_reset uc \<longrightarrow>
            stored_balance (snd (reset_monthly_credits cfg db uid now)) uid ''chat''
              = Some (fst (tier_allotment cfg (subscription_tier uc)))
            \<and> stored_balance (snd (reset_monthly_credits cfg db uid now)) uid ''genai''
              = Some (snd (tier_allotment cfg (subscription_tier uc)))
            \<and> stored_last_reset (snd (reset_monthly_credits cfg db uid now)) uid = Some now
            \<and> (now2 - now < thirty_days \<longrightarrow>
                 reset_monthly_credits cfg (snd (reset_monthly_credits cfg db uid now)) uid now2
                   = (False, snd (reset_monthly_credits cfg db uid now))))
       \<and> (now - last_reset uc < thirty_days \<longrightarrow>
            reset_monthly_credits cfg db uid now = (False, db))
       \<and> tier_allotment cfg ''premium'' = (100, 50)
       \<and> tier_allotment cfg ''pro'' = (500, 200)
       \<and> tier_allotment cfg ''free''
            = (free_chat_credits_monthly cfg, free_gen_ai_credits_monthly cfg)
       \<and> distinct [tier_allotment default_settings ''free'',
                    tier_allotment default_settings ''pro'',
                    tier_allotment default_settings ''premium'']"
proof (intro conjI impI)
  show "fst (reset_monthly_credits cfg db uid now) = (thirty_days \<le> now - last_reset uc)"
    using g by (rule reset_result)
next
  assume e: "thirty_days \<le> now - last_reset uc"
  from reset_elapsed [OF g e]
  show "stored_balance (snd (reset_monthly_credits cfg db uid now)) uid ''chat''
              = Some (fst (tier_allotment cfg (subscription_tier uc)))"
    and "stored_balance (snd (reset_monthly_credits cfg db uid now)) uid ''genai''
              = Some (snd (tier_allotment cfg (subscription_tier uc)))"
    and "stored_last_reset (snd (reset_monthly_credits cfg db uid now)) uid = Some now"
    by simp_all
  assume "now2 - now < thirty_days"
  with g e show "reset_monthly_credits cfg (snd (reset_monthly_credits cfg db uid now)) uid now2
                   = (False, snd (reset_monthly_credits cfg db uid now))"
    by (rule reset_again)
next
  assume "now - last_reset uc < thirty_days"
  then have "\<not> thirty_days \<le> now - last_reset uc" by simp
  with g show "reset_monthly_credits cfg db uid now = (False, db)" by (rule reset_not_elapsed)
next
  show "tier_allotment cfg ''premium'' = (100, 50)" by (simp add: tier_allotment_def)
  show "tier_allotment cfg ''pro'' = (500, 200)" by (simp add: tier_allotment_def)
  show "tier_allotment cfg ''free''
            = (free_chat_credits_monthly cfg, free_gen_ai_credits_monthly cfg)"
    by (simp add: tier_allotment_def)
  show "distinct [tier_allotment default_settings ''free'',
                    tier_allotment default_settings ''pro'',
                    tier_allotment default_settings ''premium'']"
    by (simp add: tier_allotment_def default_settings_def)
qed

theorem reset_monthly_credits_thirty_days_witness:
  "get_user_credits default_settings example_db ''u1'' 2678400000000
     = Some \<lparr>user_id = ''u1'', chat_credits = 5, gen_ai_credits = 3, last_reset = 0,
             subscription_tier = ''free''\<rparr>
   \<and> thirty_days \<le> 2678400000000 - 0
   \<and> fst (reset_monthly_credits default_settings example_db ''u1'' 2678400000000)
   \<and> stored_balance (snd (reset_monthly_credits default_settings example_db ''u1'' 2678400000000))
        ''u1'' ''chat'' = Some 25
   \<and> stored_balance (snd (reset_monthly_credits default_settings example_db ''u1'' 2678400000000))
        ''u1'' ''genai'' = Some 25
   \<and> stored_last_reset
        (snd (reset_monthly_credits default_settings example_db ''u1'' 2678400000000)) ''u1''
       = Some 2678400000000
   \<and> reset_monthly_credits default_settings
        (snd (reset_monthly_credits default_settings example_db ''u1'' 2678400000000))
        ''u1'' 2678400000001
       = (False, snd (reset_monthly_credits default_settings example_db ''u1'' 2678400000000))
   \<and> get_user_credits default_settings example_db ''u2'' 86400000000
     = Some \<lparr>user_id = ''u2'', chat_credits = 0, gen_ai_credits = 1, last_reset = 0,
             subscription_tier = ''pro''\<rparr>
   \<and> reset_monthly_credits default_settings example_db ''u2'' 86400000000 = (False, example_db)"
proof -
  have g1: "get_user_credits default_settings example_db ''u1'' 2678400000000
     = Some \<lparr>user_id = ''u1'', chat_credits = 5, gen_ai_credits = 3, last_reset = 0,
             subscription_tier = ''free''\<rparr>"
    and g2: "get_user_credits default_settings example_db ''u2'' 86400000000
     = Some \<lparr>user_id = ''u2'', chat_credits = 0, gen_ai_credits = 1, last_reset = 0,
             subscription_tier = ''pro''\<rparr>"
    by (simp_all add: get_user_credits_def example_db_def account_doc_def empty_doc_def
          default_settings_def)
  from reset_monthly_credits_thirty_days [OF g1, of 2678400000001]
       reset_monthly_credits_thirty_days [OF g2, of 0] g1 g2
  show ?thesis by (simp add: thirty_days_def tier_allotment_def default_settings_def)
qed

section \<open>A document without a balance field\<close>

text \<open>
  C10. For an existing user document without the balance field of a credit type,
  \<^verbatim>\<open>get_user_credits\<close> reports the free-tier monthly default for that balance, while
  \<^verbatim>\<open>deduct_credits\<close> reads the missing field as 0: every deduction of a positive amount
  fails with remaining 0 and changes nothing.
\<close>

theorem missing_balance_field_disagreement:
  assumes u: "users db uid = Some data"
      and g: "get_user_credits cfg db uid now = Some uc"
      and a: "0 < amount"
  shows "(int_fields data ''chatCredits'' = None \<longrightarrow>
            chat_credits uc = free_chat_credits_monthly cfg \<and>
            deduct_credits db uid ''chat'' amount now' = ((False, 0), db))
       \<and> (int_fields data ''genAICredits'' = None \<longrightarrow>
            gen_ai_credits uc = free_gen_ai_credits_monthly cfg \<and>
            deduct_credits db uid ''genai'' amount now' = ((False, 0), db))"
proof -
  have "chat_credits uc = free_chat_credits_monthly cfg" if "int_fields data ''chatCredits'' = None"
    using g u that by (auto simp: get_user_credits_def Let_def split: if_splits)
  moreover have "gen_ai_credits uc = free_gen_ai_credits_monthly cfg"
    if "int_fields data ''genAICredits'' = None"
    using g u that by (auto simp: get_user_credits_def Let_def split: if_splits)
  moreover have "deduct_credits db uid ''chat'' amount now' = ((False, 0), db)"
    if "int_fields data ''chatCredits'' = None"
    using u a that by (simp add: deduct_credits_def credit_field_def)
  moreover have "deduct_credits db uid ''genai'' amount now' = ((False, 0), db)"
    if "int_fields data ''genAICredits'' = None"
    using u a that by (simp add: deduct_credits_def credit_field_def)
  ultimately show ?thesis by blast
qed

theorem missing_balance_field_disagreement_witness:
  "users example_db ''u3'' = Some empty_doc
   \<and> get_user_credits default_settings example_db ''u3'' 7
       = Some \<lparr>user_id = ''u3'', chat_credits = 25, gen_ai_credits = 25, last_reset = 7,
               subscription_tier = ''free''\<rparr>
   \<and> deduct_credits example_db ''u3'' ''chat'' 1 7 = ((False, 0), example_db)
   \<and> deduct_credits example_db ''u3'' ''genai'' 1 7 = ((False, 0), example_db)"
proof -
  have u: "users example_db ''u3'' = Some empty_doc" by (simp add: example_db_def)
  have g: "get_user_credits default_settings example_db ''u3'' 7
       = Some \<lparr>user_id = ''u3'', chat_credits = 25, gen_ai_credits = 25, last_reset = 7,
               subscription_tier = ''free''\<rparr>"
    by (simp add: get_user_credits_def example_db_def empty_doc_def default_settings_def)
  have a: "(0::int) < 1" by simp
  have e: "int_fields empty_doc ''chatCredits'' = None" "int_fields empty_doc ''genAICredits'' = None"
    by (simp_all add: empty_doc_def)
  from missing_balance_field_disagreement [OF u g a, of 7] u g e show ?thesis by simp
qed

end
